theory Spec2Isabelle
  imports Main
begin

section \<open>Data model\<close>

text \<open>
  Timestamps (\<^verbatim>\<open>Date\<close> values and the ISO strings made by \<^verbatim>\<open>toISOString\<close>) are
  milliseconds since the epoch. Strings are lists of code units, so \<^verbatim>\<open>s.length\<close> is
  \<open>length s\<close>.
\<close>

type_synonym time = int

datatype DatabaseError = ERROR_INIT | ERROR_USERNAME_LEN | ERROR_PASSWORD_REQ | ERROR_USER_EXIST

text \<open>
  Thrown values: \<^verbatim>\<open>createError({statusCode, statusMessage, data: {cause}})\<close>, the
  provider's \<^verbatim>\<open>DatabaseError\<close>, the \<^verbatim>\<open>RangeError\<close> of \<^verbatim>\<open>toISOString\<close> on an invalid
  date, and a rejection of the command gateway.
\<close>

datatype error =
    HttpError (statusCode: nat) (statusMessage: string) (cause: "string option")
  | DbError DatabaseError
  | RangeError
  | GatewayError string

datatype ROLE = ADMIN | CLIENT

text \<open>
  \<^verbatim>\<open>User\<close>: the file-backed repository sets \<^verbatim>\<open>name\<close>, the in-memory provider's user
  has no such field (\<open>None\<close>).
\<close>

record User =
  user_id :: string
  password :: string
  username :: string
  user_name :: "string option"
  role :: ROLE
  user_enabled :: bool
  user_createdAt :: time
  user_updatedAt :: time

record OneTimeLink =
  link_oneTimeLink :: string
  link_expiresAt :: time

record NewClient =
  client_id :: string
  client_name :: string
  address4 :: string
  address6 :: string
  privateKey :: string
  publicKey :: string
  preSharedKey :: string
  endpoint :: "string option"
  oneTimeLink :: "OneTimeLink option"
  expiresAt :: "time option"
  enabled :: bool
  allowedIPs :: "string list"
  serverAllowedIPs :: "string list option"
  persistentKeepalive :: int

record Client = NewClient +
  createdAt :: time
  updatedAt :: time

text \<open>
  The fields of \<^verbatim>\<open>System\<close> that the service reads: \<^verbatim>\<open>system.userConfig.address4Range\<close>,
  \<^verbatim>\<open>address6Range\<close>, \<^verbatim>\<open>allowedIps\<close>, \<^verbatim>\<open>persistentKeepalive\<close>,
  \<^verbatim>\<open>system.clientExpiration.enabled\<close> and \<^verbatim>\<open>system.oneTimeLinks.enabled\<close>.
\<close>

record UserConfig =
  address4Range :: string
  address6Range :: string
  allowedIps :: "string list"
  defaultPersistentKeepalive :: int

record Feature =
  feature_enabled :: bool

record System =
  userConfig :: UserConfig
  clientExpiration :: Feature
  oneTimeLinks :: Feature

subsection \<open>Objects used as dictionaries\<close>

text \<open>
  \<^verbatim>\<open>data.clients\<close> is an object keyed by client id. Its keys are UUIDs, never array
  indices, so \<^verbatim>\<open>Object.values\<close> lists the entries in insertion order: an association
  list. \<open>dict_set\<close> is \<^verbatim>\<open>obj[k] = v\<close> (an existing key keeps its place, a new one goes
  last), \<open>dict_delete\<close> is \<^verbatim>\<open>delete obj[k]\<close>, \<open>dict_get\<close> is \<^verbatim>\<open>obj[k]\<close>.
\<close>

type_synonym 'a dict = "(string \<times> 'a) list"

primrec dict_set :: "string \<Rightarrow> 'a \<Rightarrow> 'a dict \<Rightarrow> 'a dict" where
  "dict_set k v [] = [(k, v)]"
| "dict_set k v (p # ps) = (if fst p = k then (k, v) # ps else p # dict_set k v ps)"

primrec dict_delete :: "string \<Rightarrow> 'a dict \<Rightarrow> 'a dict" where
  "dict_delete k [] = []"
| "dict_delete k (p # ps) = (if fst p = k then ps else p # dict_delete k ps)"

definition dict_get :: "string \<Rightarrow> 'a dict \<Rightarrow> 'a option" where
  "dict_get k d = map_of d k"

definition dict_values :: "'a dict \<Rightarrow> 'a list" where
  "dict_values d = map snd d"

subsection \<open>Strings\<close>

text \<open>
  \<^verbatim>\<open>`${n}`\<close> for a non-negative integer (\<open>digit_char\<close> is the digit for a value
  below 16, lower case), and \<^verbatim>\<open>Array.prototype.join\<close>.
\<close>

definition digit_char :: "nat \<Rightarrow> char" where
  "digit_char k = (if k < 10 then char_of (48 + k) else char_of (87 + k))"

function decimal_of_nat :: "nat \<Rightarrow> string" where
  "decimal_of_nat n =
     (if n div 10 = 0 then [digit_char n]
      else decimal_of_nat (n div 10) @ [digit_char (n mod 10)])"
  by pat_completeness auto
termination
  by (relation "measure (\<lambda>n. n)") auto

fun join :: "string \<Rightarrow> string list \<Rightarrow> string" where
  "join sep [] = []"
| "join sep [x] = x"
| "join sep (x # y # ys) = x @ sep @ join sep (y # ys)"

section \<open>The file-backed repositories (LowDB)\<close>

text \<open>
  The document held by \<^verbatim>\<open>Low<Database>\<close>: \<open>data\<close> is the in-memory document,
  \<open>stored\<close> the document on disk as of the last \<^verbatim>\<open>write()\<close>. \<^verbatim>\<open>db.update(fn)\<close> runs
  \<^verbatim>\<open>fn\<close> on \<open>data\<close> and writes.
\<close>

record Database =
  system :: "System option"
  users :: "User list"
  clients :: "Client dict"

record Low =
  data :: Database
  stored :: Database

definition low_write :: "Low \<Rightarrow> Low" where
  "low_write db = db\<lparr>stored := data db\<rparr>"

definition low_update :: "(Database \<Rightarrow> Database) \<Rightarrow> Low \<Rightarrow> Low" where
  "low_update fn db = low_write (db\<lparr>data := fn (data db)\<rparr>)"

subsection \<open>LowDBSystem\<close>

definition LowDBSystem_get :: "Low \<Rightarrow> error + System" where
  "LowDBSystem_get db =
     (case system (data db) of
        None \<Rightarrow> Inl (DbError ERROR_INIT)
      | Some sys \<Rightarrow> Inr sys)"

subsection \<open>LowDBUser\<close>

definition LowDBUser_findAll :: "Low \<Rightarrow> User list" where
  "LowDBUser_findAll db = users (data db)"

definition LowDBUser_findById :: "Low \<Rightarrow> string \<Rightarrow> User option" where
  "LowDBUser_findById db i = find (\<lambda>user. user_id user = i) (users (data db))"

text \<open>
  \<^verbatim>\<open>create(username, password)\<close>. \<open>hashPassword\<close> is the password utility, \<open>uuid\<close> the
  value of \<^verbatim>\<open>crypto.randomUUID()\<close> and \<open>now\<close> the clock reading of this call.
\<close>

definition LowDBUser_create ::
  "(string \<Rightarrow> string) \<Rightarrow> string \<Rightarrow> time \<Rightarrow> string \<Rightarrow> string \<Rightarrow> Low \<Rightarrow> (error + unit) \<times> Low" where
  "LowDBUser_create hashPassword uuid now uname pw db =
     (let isUserExist = find (\<lambda>user. username user = uname) (users (data db)) in
      if isUserExist \<noteq> None then
        (Inl (HttpError 409 ''Username already taken'' None), db)
      else
        (let isUserEmpty = (length (users (data db)) = 0);
             hash = hashPassword pw;
             newUser = \<lparr>user_id = uuid, password = hash, username = uname,
                        user_name = Some ''Administrator'',
                        role = (if isUserEmpty then ADMIN else CLIENT),
                        user_enabled = True, user_createdAt = now, user_updatedAt = now\<rparr>
         in (Inr (), low_update (\<lambda>d. d\<lparr>users := users d @ [newUser]\<rparr>) db)))"

text \<open>
  \<^verbatim>\<open>update(user)\<close>: \<^verbatim>\<open>oldUser = user\<close> assigns the local variable; the only effect on
  the repository is \<^verbatim>\<open>this.#db.write()\<close>.
\<close>

definition LowDBUser_update :: "User \<Rightarrow> Low \<Rightarrow> Low" where
  "LowDBUser_update user db =
     (let oldUser = LowDBUser_findById db (user_id user) in
      if oldUser \<noteq> None then
        (let oldUser = Some user in low_write db)
      else db)"

subsection \<open>LowDBClient\<close>

definition LowDBClient_findAll :: "Low \<Rightarrow> Client dict" where
  "LowDBClient_findAll db = clients (data db)"

definition LowDBClient_findById :: "Low \<Rightarrow> string \<Rightarrow> Client option" where
  "LowDBClient_findById db i = dict_get i (clients (data db))"

definition LowDBClient_create :: "time \<Rightarrow> NewClient \<Rightarrow> Low \<Rightarrow> Low" where
  "LowDBClient_create now client db =
     (let newClient = NewClient.extend client (Client.fields now now) in
      low_update (\<lambda>d. d\<lparr>clients := dict_set (client_id client) newClient (clients d)\<rparr>) db)"

definition LowDBClient_delete :: "string \<Rightarrow> Low \<Rightarrow> Low" where
  "LowDBClient_delete i db =
     low_update (\<lambda>d. d\<lparr>clients := dict_delete i (clients d)\<rparr>) db"

definition LowDBClient_toggle :: "string \<Rightarrow> bool \<Rightarrow> Low \<Rightarrow> Low" where
  "LowDBClient_toggle i enable db =
     low_update (\<lambda>d.
       case dict_get i (clients d) of
         None \<Rightarrow> d
       | Some c \<Rightarrow> d\<lparr>clients := dict_set i (c\<lparr>enabled := enable\<rparr>) (clients d)\<rparr>) db"

definition LowDBClient_updateName :: "string \<Rightarrow> string \<Rightarrow> Low \<Rightarrow> Low" where
  "LowDBClient_updateName i name db =
     low_update (\<lambda>d.
       case dict_get i (clients d) of
         None \<Rightarrow> d
       | Some c \<Rightarrow> d\<lparr>clients := dict_set i (c\<lparr>client_name := name\<rparr>) (clients d)\<rparr>) db"

definition LowDBClient_updateAddress4 :: "string \<Rightarrow> string \<Rightarrow> Low \<Rightarrow> Low" where
  "LowDBClient_updateAddress4 i addr db =
     low_update (\<lambda>d.
       case dict_get i (clients d) of
         None \<Rightarrow> d
       | Some c \<Rightarrow> d\<lparr>clients := dict_set i (c\<lparr>address4 := addr\<rparr>) (clients d)\<rparr>) db"

definition LowDBClient_updateExpirationDate :: "string \<Rightarrow> time option \<Rightarrow> Low \<Rightarrow> Low" where
  "LowDBClient_updateExpirationDate i expirationDate db =
     low_update (\<lambda>d.
       case dict_get i (clients d) of
         None \<Rightarrow> d
       | Some c \<Rightarrow> d\<lparr>clients := dict_set i (c\<lparr>expiresAt := expirationDate\<rparr>) (clients d)\<rparr>) db"

text \<open>
  \<^verbatim>\<open>deleteOneTimeLink(id)\<close>; \<open>now\<close> is \<^verbatim>\<open>Date.now()\<close>. The link object is kept and
  its \<^verbatim>\<open>expiresAt\<close> is overwritten.
\<close>

definition LowDBClient_deleteOneTimeLink :: "time \<Rightarrow> string \<Rightarrow> Low \<Rightarrow> Low" where
  "LowDBClient_deleteOneTimeLink now i db =
     low_update (\<lambda>d.
       case dict_get i (clients d) of
         None \<Rightarrow> d
       | Some c \<Rightarrow>
           (case oneTimeLink c of
              None \<Rightarrow> d
            | Some l \<Rightarrow>
                d\<lparr>clients :=
                    dict_set i (c\<lparr>oneTimeLink := Some (l\<lparr>link_expiresAt := now + 10 * 1000\<rparr>)\<rparr>)
                      (clients d)\<rparr>)) db"

definition LowDBClient_createOneTimeLink :: "string \<Rightarrow> OneTimeLink \<Rightarrow> Low \<Rightarrow> Low" where
  "LowDBClient_createOneTimeLink i l db =
     low_update (\<lambda>d.
       case dict_get i (clients d) of
         None \<Rightarrow> d
       | Some c \<Rightarrow> d\<lparr>clients := dict_set i (c\<lparr>oneTimeLink := Some l\<rparr>) (clients d)\<rparr>) db"

section \<open>The in-memory provider\<close>

text \<open>
  \<^verbatim>\<open>InMemoryData\<close>; the provider's own \<^verbatim>\<open>System\<close> type is left as a parameter.
  \<^verbatim>\<open>Identity<User>\<close> is a string, a number, or an object with an \<^verbatim>\<open>id\<close>.
\<close>

record 'sys InMemoryData =
  im_system :: "'sys option"
  im_users :: "User list"

datatype Identity = IdString string | IdNumber int | IdObject User

text \<open>
  \<^verbatim>\<open>getUser(id)\<close>. The ids of stored users are strings, so \<^verbatim>\<open>user.id === id\<close> is false
  for every user when \<^verbatim>\<open>id\<close> is a number.
\<close>

fun InMemory_getUser :: "'sys InMemoryData \<Rightarrow> Identity \<Rightarrow> User option" where
  "InMemory_getUser d (IdString i) = find (\<lambda>user. user_id user = i) (im_users d)"
| "InMemory_getUser d (IdNumber n) = find (\<lambda>user. False) (im_users d)"
| "InMemory_getUser d (IdObject u) = find (\<lambda>user. user_id user = user_id u) (im_users d)"

text \<open>
  \<^verbatim>\<open>newUserWithPassword(username, password)\<close>; \<open>isPasswordStrong\<close> and
  \<open>hashPasswordWithBcrypt\<close> are the password utilities.
\<close>

definition InMemory_newUserWithPassword ::
  "(string \<Rightarrow> bool) \<Rightarrow> (string \<Rightarrow> string) \<Rightarrow> time \<Rightarrow> string \<Rightarrow> string \<Rightarrow>
     'sys InMemoryData \<Rightarrow> (error + unit) \<times> 'sys InMemoryData" where
  "InMemory_newUserWithPassword isPasswordStrong hashPasswordWithBcrypt now uname pw d =
     (if length uname < 8 then (Inl (DbError ERROR_USERNAME_LEN), d)
      else if \<not> isPasswordStrong pw then (Inl (DbError ERROR_PASSWORD_REQ), d)
      else
        (let isUserExist = find (\<lambda>user. username user = uname) (im_users d) in
         if isUserExist \<noteq> None then (Inl (DbError ERROR_USER_EXIST), d)
         else
           (let isUserEmpty = (length (im_users d) = 0);
                newUser = \<lparr>user_id = decimal_of_nat (length (im_users d) + 1),
                           password = hashPasswordWithBcrypt pw, username = uname,
                           user_name = None,
                           role = (if isUserEmpty then ADMIN else CLIENT),
                           user_enabled = True, user_createdAt = now, user_updatedAt = now\<rparr>
            in (Inr (), d\<lparr>im_users := im_users d @ [newUser]\<rparr>))))"

text \<open>
  \<^verbatim>\<open>saveUser(user)\<close>: \<^verbatim>\<open>_user = user\<close> assigns the local variable \<^verbatim>\<open>_user\<close>
  (written \<open>user'\<close>).
\<close>

definition InMemory_saveUser :: "User \<Rightarrow> 'sys InMemoryData \<Rightarrow> 'sys InMemoryData" where
  "InMemory_saveUser user d =
     (let user' = InMemory_getUser d (IdObject user) in
      if user' \<noteq> None then
        (let user' = Some user in d)
      else d)"

section \<open>The WireGuard service\<close>

subsection \<open>Collaborators\<close>

text \<open>
  Functions of libraries and helpers that the service calls, taken as parameters:
  \<^verbatim>\<open>parseCidr\<close> (cidr-tools; \<open>cidr_start\<close> and \<open>cidr_end\<close> are the \<^verbatim>\<open>start\<close> and \<^verbatim>\<open>end\<close>
  of its result, the first and the last address of the range), \<^verbatim>\<open>stringifyIp\<close>
  (ip-bigint; number and version), \<^verbatim>\<open>isIPv4\<close> (is-ip), the config renderers
  \<^verbatim>\<open>wg.generateServerInterface\<close> and \<^verbatim>\<open>wg.generateServerPeer\<close>, and the command gateway
  \<^verbatim>\<open>wg.up()\<close> and \<^verbatim>\<open>wg.sync()\<close>, which read the written configuration and reject with a
  message (\<open>Some msg\<close>) or succeed (\<open>None\<close>). \<open>toEndOfDay\<close> is
  \<^verbatim>\<open>new Date(expireDate)\<close> moved to 23:59:59 and passed through \<^verbatim>\<open>toISOString()\<close>, which
  throws a \<^verbatim>\<open>RangeError\<close> on an invalid date (\<open>None\<close>). \<open>crc32_hex\<close> is
  \<^verbatim>\<open>Math.abs(CRC32.str(key)).toString(16)\<close>. The address ranges of the system
  configuration are taken to be well-formed, so \<^verbatim>\<open>parseCidr\<close> returns.
\<close>

record Cidr =
  cidr_start :: int
  cidr_end :: int

record Deps =
  parseCidr :: "string \<Rightarrow> Cidr"
  stringifyIp :: "int \<Rightarrow> nat \<Rightarrow> string"
  isIPv4 :: "string \<Rightarrow> bool"
  toEndOfDay :: "string \<Rightarrow> time option"
  crc32_hex :: "string \<Rightarrow> string"
  generateServerInterface :: "System \<Rightarrow> string"
  generateServerPeer :: "Client \<Rightarrow> string"
  wg_up :: "string option \<Rightarrow> string option"
  wg_sync :: "string option \<Rightarrow> string option"

text \<open>
  What the service acts on: the repository document, the file \<^verbatim>\<open>wg0.conf\<close> under
  \<^verbatim>\<open>WG_PATH\<close> (\<open>None\<close> while it has not been written), and the calls made to the command
  gateway, in order.
\<close>

datatype wg_call = Up | Down | Sync

record World =
  lowdb :: Low
  wg0_conf :: "string option"
  wg_calls :: "wg_call list"

text \<open>An awaited call that resolves to a value or rejects, followed by the rest.\<close>

definition andThen ::
  "(error + 'a) \<times> 's \<Rightarrow> ('a \<Rightarrow> 's \<Rightarrow> (error + 'b) \<times> 's) \<Rightarrow> (error + 'b) \<times> 's" where
  "andThen r k = (case r of (Inl e, s) \<Rightarrow> (Inl e, s) | (Inr a, s) \<Rightarrow> k a s)"

subsection \<open>The provider facade\<close>

text \<open>
  Modelled from the spec: the provider facade \<^verbatim>\<open>Database\<close> that the service calls
  (\<^verbatim>\<open>Database.getSystem\<close>, \<^verbatim>\<open>getClients\<close>, \<^verbatim>\<open>createClient\<close>, \<^verbatim>\<open>deleteClient\<close>,
  \<^verbatim>\<open>toggleClient\<close>, \<^verbatim>\<open>updateClientName\<close>, \<^verbatim>\<open>updateClientAddress4\<close>,
  \<^verbatim>\<open>updateClientExpirationDate\<close>, \<^verbatim>\<open>createOneTimeLink\<close>, \<^verbatim>\<open>deleteOneTimeLink\<close>) is not
  among the sources; each call is the repository method for the same mutator
  (\<^verbatim>\<open>toggle\<close>, \<^verbatim>\<open>updateName\<close>, \<^verbatim>\<open>updateAddress4\<close>, ...), applied to the repository
  document.
\<close>

definition Database_getSystem :: "World \<Rightarrow> error + System" where
  "Database_getSystem w = LowDBSystem_get (lowdb w)"

definition Database_getClients :: "World \<Rightarrow> Client dict" where
  "Database_getClients w = LowDBClient_findAll (lowdb w)"

definition Database_getClient :: "World \<Rightarrow> string \<Rightarrow> Client option" where
  "Database_getClient w i = LowDBClient_findById (lowdb w) i"

definition Database_createClient :: "time \<Rightarrow> NewClient \<Rightarrow> World \<Rightarrow> World" where
  "Database_createClient now client w = w\<lparr>lowdb := LowDBClient_create now client (lowdb w)\<rparr>"

definition Database_deleteClient :: "string \<Rightarrow> World \<Rightarrow> World" where
  "Database_deleteClient i w = w\<lparr>lowdb := LowDBClient_delete i (lowdb w)\<rparr>"

definition Database_toggleClient :: "string \<Rightarrow> bool \<Rightarrow> World \<Rightarrow> World" where
  "Database_toggleClient i enable w = w\<lparr>lowdb := LowDBClient_toggle i enable (lowdb w)\<rparr>"

definition Database_updateClientName :: "string \<Rightarrow> string \<Rightarrow> World \<Rightarrow> World" where
  "Database_updateClientName i name w = w\<lparr>lowdb := LowDBClient_updateName i name (lowdb w)\<rparr>"

definition Database_updateClientAddress4 :: "string \<Rightarrow> string \<Rightarrow> World \<Rightarrow> World" where
  "Database_updateClientAddress4 i addr w = w\<lparr>lowdb := LowDBClient_updateAddress4 i addr (lowdb w)\<rparr>"

definition Database_updateClientExpirationDate :: "string \<Rightarrow> time option \<Rightarrow> World \<Rightarrow> World" where
  "Database_updateClientExpirationDate i d w =
     w\<lparr>lowdb := LowDBClient_updateExpirationDate i d (lowdb w)\<rparr>"

definition Database_createOneTimeLink :: "string \<Rightarrow> OneTimeLink \<Rightarrow> World \<Rightarrow> World" where
  "Database_createOneTimeLink i l w = w\<lparr>lowdb := LowDBClient_createOneTimeLink i l (lowdb w)\<rparr>"

definition Database_deleteOneTimeLink :: "time \<Rightarrow> string \<Rightarrow> World \<Rightarrow> World" where
  "Database_deleteOneTimeLink now i w = w\<lparr>lowdb := LowDBClient_deleteOneTimeLink now i (lowdb w)\<rparr>"

subsection \<open>Saving and syncing the configuration\<close>

text \<open>
  The loop of \<^verbatim>\<open>#saveWireguardConfig\<close> over \<^verbatim>\<open>Object.values(clients)\<close>: \<^verbatim>\<open>continue\<close> on a
  client that is not enabled, \<^verbatim>\<open>result.push\<close> of the peer block otherwise.
\<close>

fun push_peers :: "Deps \<Rightarrow> Client list \<Rightarrow> string list \<Rightarrow> string list" where
  "push_peers deps [] result = result"
| "push_peers deps (client # rest) result =
     (if \<not> enabled client then push_peers deps rest result
      else push_peers deps rest (result @ [generateServerPeer deps client]))"

definition config_blocks :: "Deps \<Rightarrow> System \<Rightarrow> Client dict \<Rightarrow> string list" where
  "config_blocks deps sys cs =
     (let result = [];
          result = result @ [generateServerInterface deps sys]
      in push_peers deps (dict_values cs) result)"

definition saveWireguardConfig :: "Deps \<Rightarrow> World \<Rightarrow> (error + unit) \<times> World" where
  "saveWireguardConfig deps w =
     (case Database_getSystem w of
        Inl e \<Rightarrow> (Inl e, w)
      | Inr sys \<Rightarrow>
          (let cs = Database_getClients w;
               result = config_blocks deps sys cs
           in (Inr (), w\<lparr>wg0_conf := Some (join [CHR 0x0A, CHR 0x0A] result)\<rparr>)))"

definition syncWireguardConfig :: "Deps \<Rightarrow> World \<Rightarrow> (error + unit) \<times> World" where
  "syncWireguardConfig deps w =
     (let w' = w\<lparr>wg_calls := wg_calls w @ [Sync]\<rparr> in
      case wg_sync deps (wg0_conf w) of
        Some msg \<Rightarrow> (Inl (GatewayError msg), w')
      | None \<Rightarrow> (Inr (), w'))"

definition saveConfig :: "Deps \<Rightarrow> World \<Rightarrow> (error + unit) \<times> World" where
  "saveConfig deps w = andThen (saveWireguardConfig deps w) (\<lambda>_ w'. syncWireguardConfig deps w')"

subsection \<open>createClient\<close>

text \<open>
  The two allocation loops of \<^verbatim>\<open>createClient\<close> are one loop over a family: \<open>str\<close> is
  \<^verbatim>\<open>stringifyIp\<close> at the family's version, \<open>addr\<close> the client field compared
  (\<^verbatim>\<open>address4\<close> or \<^verbatim>\<open>address6\<close>). It runs \<^verbatim>\<open>i\<close> from its start value while
  \<^verbatim>\<open>i <= lst\<close> (\<open>lst\<close> is \<^verbatim>\<open>end - 1n\<close>); \<open>None\<close> is the variable left \<^verbatim>\<open>undefined\<close>.
\<close>

function nextFree ::
  "(int \<Rightarrow> string) \<Rightarrow> (Client \<Rightarrow> string) \<Rightarrow> Client list \<Rightarrow> int \<Rightarrow> int \<Rightarrow> string option" where
  "nextFree str addr cs i lst =
     (if i \<le> lst then
        (let currentIp = str i;
             client = find (\<lambda>client. addr client = currentIp) cs
         in if client = None then Some currentIp
            else nextFree str addr cs (i + 1) lst)
      else None)"
  by pat_completeness auto
termination
  by (relation "measure (\<lambda>(str, addr, cs, i, lst). nat (lst + 1 - i))") auto

definition nextAddress4 :: "Deps \<Rightarrow> System \<Rightarrow> Client dict \<Rightarrow> string option" where
  "nextAddress4 deps sys cs =
     (let cidr4 = parseCidr deps (address4Range (userConfig sys)) in
      nextFree (\<lambda>i. stringifyIp deps i 4) address4 (dict_values cs)
        (cidr_start cidr4 + 2) (cidr_end cidr4 - 1))"

definition nextAddress6 :: "Deps \<Rightarrow> System \<Rightarrow> Client dict \<Rightarrow> string option" where
  "nextAddress6 deps sys cs =
     (let cidr6 = parseCidr deps (address6Range (userConfig sys)) in
      nextFree (\<lambda>i. stringifyIp deps i 6) address6 (dict_values cs)
        (cidr_start cidr6 + 2) (cidr_end cidr6 - 1))"

text \<open>
  \<^verbatim>\<open>!address4\<close> holds of \<^verbatim>\<open>undefined\<close> and of the empty string; \<^verbatim>\<open>if (expireDate)\<close>
  holds of a string that is neither \<^verbatim>\<open>null\<close> nor empty.
\<close>

definition falsy :: "string option \<Rightarrow> bool" where
  "falsy s = (s = None \<or> s = Some [])"

definition pool_exhausted :: "string \<Rightarrow> error" where
  "pool_exhausted c = HttpError 409 ''Maximum number of clients reached.'' (Some c)"

text \<open>
  What one call of \<^verbatim>\<open>createClient\<close> draws from outside: the keys made by the command
  gateway, \<^verbatim>\<open>crypto.randomUUID()\<close>, and the clock.
\<close>

record Generated =
  gen_privateKey :: string
  gen_publicKey :: string
  gen_preSharedKey :: string
  gen_uuid :: string
  gen_now :: time

definition createClient ::
  "Deps \<Rightarrow> Generated \<Rightarrow> string \<Rightarrow> string option \<Rightarrow> World \<Rightarrow> (error + NewClient) \<times> World" where
  "createClient deps g name expireDate w =
     (case Database_getSystem w of
        Inl e \<Rightarrow> (Inl e, w)
      | Inr sys \<Rightarrow>
          (let cs = Database_getClients w;
               addr4 = nextAddress4 deps sys cs
           in if falsy addr4 then (Inl (pool_exhausted ''IPv4 Address Pool exhausted''), w)
              else
                (let addr6 = nextAddress6 deps sys cs
                 in if falsy addr6 then (Inl (pool_exhausted ''IPv6 Address Pool exhausted''), w)
                    else
                      (let client =
                             \<lparr>client_id = gen_uuid g, client_name = name,
                              address4 = the addr4, address6 = the addr6,
                              privateKey = gen_privateKey g, publicKey = gen_publicKey g,
                              preSharedKey = gen_preSharedKey g,
                              endpoint = None, oneTimeLink = None, expiresAt = None,
                              enabled = True,
                              allowedIPs = allowedIps (userConfig sys),
                              serverAllowedIPs = None,
                              persistentKeepalive = defaultPersistentKeepalive (userConfig sys)\<rparr>
                       in case (if \<not> falsy expireDate then
                                  (case toEndOfDay deps (the expireDate) of
                                     None \<Rightarrow> Inl RangeError
                                   | Some t \<Rightarrow> Inr (client\<lparr>expiresAt := Some t\<rparr>))
                                else Inr client) of
                            Inl e \<Rightarrow> (Inl e, w)
                          | Inr client \<Rightarrow>
                              andThen (saveConfig deps (Database_createClient (gen_now g) client w))
                                (\<lambda>_ w'. (Inr client, w'))))))"

subsection \<open>The other operations\<close>

definition deleteClient :: "Deps \<Rightarrow> string \<Rightarrow> World \<Rightarrow> (error + unit) \<times> World" where
  "deleteClient deps clientId w = saveConfig deps (Database_deleteClient clientId w)"

definition enableClient :: "Deps \<Rightarrow> string \<Rightarrow> World \<Rightarrow> (error + unit) \<times> World" where
  "enableClient deps clientId w = saveConfig deps (Database_toggleClient clientId True w)"

definition disableClient :: "Deps \<Rightarrow> string \<Rightarrow> World \<Rightarrow> (error + unit) \<times> World" where
  "disableClient deps clientId w = saveConfig deps (Database_toggleClient clientId False w)"

text \<open>
  \<^verbatim>\<open>generateOneTimeLink\<close>: \<open>rnd\<close> is \<^verbatim>\<open>Math.floor(Math.random() * 1000)\<close>, \<open>now\<close> is
  \<^verbatim>\<open>Date.now()\<close>.
\<close>

definition generateOneTimeLink ::
  "Deps \<Rightarrow> nat \<Rightarrow> time \<Rightarrow> string \<Rightarrow> World \<Rightarrow> (error + unit) \<times> World" where
  "generateOneTimeLink deps rnd now clientId w =
     (let key = clientId @ ''-'' @ decimal_of_nat rnd;
          token = crc32_hex deps key;
          expires = now + 5 * 60 * 1000
      in saveConfig deps
           (Database_createOneTimeLink clientId
              \<lparr>link_oneTimeLink = token, link_expiresAt = expires\<rparr> w))"

definition eraseOneTimeLink :: "Deps \<Rightarrow> time \<Rightarrow> string \<Rightarrow> World \<Rightarrow> (error + unit) \<times> World" where
  "eraseOneTimeLink deps now clientId w = saveConfig deps (Database_deleteOneTimeLink now clientId w)"

definition updateClientName :: "Deps \<Rightarrow> string \<Rightarrow> string \<Rightarrow> World \<Rightarrow> (error + unit) \<times> World" where
  "updateClientName deps clientId name w = saveConfig deps (Database_updateClientName clientId name w)"

definition updateClientAddress :: "Deps \<Rightarrow> string \<Rightarrow> string \<Rightarrow> World \<Rightarrow> (error + unit) \<times> World" where
  "updateClientAddress deps clientId addr w =
     (if \<not> isIPv4 deps addr then (Inl (HttpError 400 (''Invalid Address: '' @ addr) None), w)
      else saveConfig deps (Database_updateClientAddress4 clientId addr w))"

definition updateClientExpireDate ::
  "Deps \<Rightarrow> string \<Rightarrow> string option \<Rightarrow> World \<Rightarrow> (error + unit) \<times> World" where
  "updateClientExpireDate deps clientId expireDate w =
     (case (if \<not> falsy expireDate then
              (case toEndOfDay deps (the expireDate) of
                 None \<Rightarrow> Inl RangeError
               | Some t \<Rightarrow> Inr (Some t))
            else Inr None) of
        Inl e \<Rightarrow> (Inl e, w)
      | Inr updatedDate \<Rightarrow>
          saveConfig deps (Database_updateClientExpirationDate clientId updatedDate w))"

subsection \<open>The reconciliation pass\<close>

text \<open>
  \<^verbatim>\<open>cronJob\<close>; \<open>now\<close> is the reading of \<^verbatim>\<open>new Date()\<close> during the pass. Each loop runs
  over \<^verbatim>\<open>Object.values(clients)\<close> as it is when the loop starts; a client is looked up
  again by \<^verbatim>\<open>client.id\<close> when the repository is called.
\<close>

fun expire_clients :: "time \<Rightarrow> Client list \<Rightarrow> World \<Rightarrow> World" where
  "expire_clients now [] w = w"
| "expire_clients now (client # rest) w =
     (if enabled client \<noteq> True then expire_clients now rest w
      else if (case expiresAt client of None \<Rightarrow> False | Some t \<Rightarrow> now > t) then
        expire_clients now rest (Database_toggleClient (client_id client) False w)
      else expire_clients now rest w)"

fun expire_links :: "time \<Rightarrow> Client list \<Rightarrow> World \<Rightarrow> World" where
  "expire_links now [] w = w"
| "expire_links now (client # rest) w =
     (if (case oneTimeLink client of None \<Rightarrow> False | Some l \<Rightarrow> now > link_expiresAt l) then
        expire_links now rest (Database_deleteOneTimeLink now (client_id client) w)
      else expire_links now rest w)"

definition cronJob :: "time \<Rightarrow> World \<Rightarrow> (error + unit) \<times> World" where
  "cronJob now w =
     (case Database_getSystem w of
        Inl e \<Rightarrow> (Inl e, w)
      | Inr sys \<Rightarrow>
          (let w1 = (if feature_enabled (clientExpiration sys)
                     then expire_clients now (dict_values (Database_getClients w)) w else w);
               w2 = (if feature_enabled (oneTimeLinks sys)
                     then expire_links now (dict_values (Database_getClients w1)) w1 else w1)
           in (Inr (), w2)))"

subsection \<open>Startup\<close>

text \<open>
  The promise that \<^verbatim>\<open>Startup\<close> awaits. Time is in milliseconds since the call;
  \<open>timers\<close> holds the due times of the pending \<^verbatim>\<open>wait\<close> callbacks, \<open>resolved\<close> says
  whether \<^verbatim>\<open>res(true)\<close> has run. \<^verbatim>\<open>wait\<close> reads \<^verbatim>\<open>Database.connected\<close> and resolves
  if it holds; it sets no timer. \<^verbatim>\<open>setTimeout(wait, 1000)\<close> is the only timer set.
  \<open>connected t\<close> is the value of \<^verbatim>\<open>Database.connected\<close> at time \<open>t\<close>.
\<close>

record EventLoop =
  timers :: "nat list"
  resolved :: bool

definition wait :: "bool \<Rightarrow> EventLoop \<Rightarrow> EventLoop" where
  "wait connected l = (if connected then l\<lparr>resolved := True\<rparr> else l)"

definition setTimeout_wait :: "nat \<Rightarrow> nat \<Rightarrow> EventLoop \<Rightarrow> EventLoop" where
  "setTimeout_wait t delay l = l\<lparr>timers := timers l @ [t + delay]\<rparr>"

definition run_timers :: "(nat \<Rightarrow> bool) \<Rightarrow> nat \<Rightarrow> EventLoop \<Rightarrow> EventLoop" where
  "run_timers connected t l =
     (let due = filter (\<lambda>d. d \<le> t) (timers l);
          l' = l\<lparr>timers := filter (\<lambda>d. \<not> d \<le> t) (timers l)\<rparr>
      in fold (\<lambda>_. wait (connected t)) due l')"

primrec event_loop :: "(nat \<Rightarrow> bool) \<Rightarrow> nat \<Rightarrow> EventLoop \<Rightarrow> EventLoop" where
  "event_loop connected 0 l = run_timers connected 0 l"
| "event_loop connected (Suc t) l = run_timers connected (Suc t) (event_loop connected t l)"

definition Startup_promise :: "(nat \<Rightarrow> bool) \<Rightarrow> nat \<Rightarrow> bool" where
  "Startup_promise connected t =
     resolved (event_loop connected t (setTimeout_wait 0 1000 \<lparr>timers = [], resolved = False\<rparr>))"

text \<open>\<^verbatim>\<open>String.prototype.includes\<close>.\<close>

fun includes_str :: "string \<Rightarrow> string \<Rightarrow> bool" where
  "includes_str [] sub = (sub = [])"
| "includes_str (c # cs) sub = (take (length sub) (c # cs) = sub \<or> includes_str cs sub)"

text \<open>
  \<^verbatim>\<open>startCronJob\<close>: one pass whose rejection is caught; the passes it schedules
  every 60 seconds afterwards are not part of \<^verbatim>\<open>Startup\<close>'s result.
\<close>

definition startCronJob :: "time \<Rightarrow> World \<Rightarrow> (error + unit) \<times> World" where
  "startCronJob now w = (Inr (), snd (cronJob now w))"

text \<open>
  What \<^verbatim>\<open>Startup\<close> does once the promise is resolved: the initial save,
  \<^verbatim>\<open>wg.down()\<close> with its rejection swallowed, \<^verbatim>\<open>wg.up()\<close> with the rejection for a
  missing device rewritten, the first sync, and the first reconciliation pass.
\<close>

definition Startup_continue :: "Deps \<Rightarrow> time \<Rightarrow> World \<Rightarrow> (error + unit) \<times> World" where
  "Startup_continue deps now w =
     andThen (saveWireguardConfig deps w) (\<lambda>_ w1.
       (let w2 = w1\<lparr>wg_calls := wg_calls w1 @ [Down]\<rparr>;
            w3 = w2\<lparr>wg_calls := wg_calls w2 @ [Up]\<rparr>
        in case wg_up deps (wg0_conf w3) of
             Some msg \<Rightarrow>
               (if includes_str msg (''Cannot find device '' @ [CHR 0x22] @ ''wg0'' @ [CHR 0x22])
                then (Inl (GatewayError
                        (''WireGuard exited with the error: Cannot find device '' @ [CHR 0x22]
                         @ ''wg0'' @ [CHR 0x22, CHR 0x0A] @ ''This usually means that your host''
                         @ [CHR 0x27] @ ''s kernel does not support WireGuard!'')), w3)
                else (Inl (GatewayError msg), w3))
           | None \<Rightarrow>
               andThen (syncWireguardConfig deps w3) (\<lambda>_ w4. startCronJob now w4)))"

text \<open>
  \<^verbatim>\<open>Startup\<close> observed \<open>t\<close> milliseconds after the call: \<open>None\<close> while it is still
  awaiting the promise, otherwise the outcome of the rest.
\<close>

definition Startup ::
  "Deps \<Rightarrow> (nat \<Rightarrow> bool) \<Rightarrow> nat \<Rightarrow> time \<Rightarrow> World \<Rightarrow> ((error + unit) \<times> World) option" where
  "Startup deps connected t now w =
     (if Startup_promise connected t then Some (Startup_continue deps now w) else None)"

subsection \<open>Requests\<close>

text \<open>
  The operations of the service that change the registry, as requests, and the
  world after one of them has run (whether it resolved or rejected).
\<close>

datatype request =
    CreateClient Generated string "string option"
  | DeleteClient string
  | EnableClient string
  | DisableClient string
  | GenerateOneTimeLink nat time string
  | EraseOneTimeLink time string
  | UpdateClientName string string
  | UpdateClientAddress string string
  | UpdateClientExpireDate string "string option"
  | CronJob time

fun serve :: "Deps \<Rightarrow> request \<Rightarrow> World \<Rightarrow> World" where
  "serve deps (CreateClient g name expireDate) w = snd (createClient deps g name expireDate w)"
| "serve deps (DeleteClient i) w = snd (deleteClient deps i w)"
| "serve deps (EnableClient i) w = snd (enableClient deps i w)"
| "serve deps (DisableClient i) w = snd (disableClient deps i w)"
| "serve deps (GenerateOneTimeLink rnd now i) w = snd (generateOneTimeLink deps rnd now i w)"
| "serve deps (EraseOneTimeLink now i) w = snd (eraseOneTimeLink deps now i w)"
| "serve deps (UpdateClientName i name) w = snd (updateClientName deps i name w)"
| "serve deps (UpdateClientAddress i addr) w = snd (updateClientAddress deps i addr w)"
| "serve deps (UpdateClientExpireDate i expireDate) w = snd (updateClientExpireDate deps i expireDate w)"
| "serve deps (CronJob now) w = snd (cronJob now w)"

definition registry :: "World \<Rightarrow> Client dict" where
  "registry w = clients (data (lowdb w))"

text \<open>
  The registry invariant: the keys of the object are distinct, and no two clients have
  the same IPv4 address or the same IPv6 address.
\<close>

definition addresses_unique :: "Client dict \<Rightarrow> bool" where
  "addresses_unique cs =
     (distinct (map fst cs) \<and> distinct (map address4 (dict_values cs))
      \<and> distinct (map address6 (dict_values cs)))"

text \<open>
  \<open>held_by_other cs i a\<close>: a client of the registry other than \<open>i\<close> has the IPv4
  address \<open>a\<close>. \<open>unguarded req w\<close>: the request is an \<^verbatim>\<open>updateClientAddress\<close> whose new
  address another client holds.
\<close>

definition held_by_other :: "Client dict \<Rightarrow> string \<Rightarrow> string \<Rightarrow> bool" where
  "held_by_other cs i a = (find (\<lambda>p. fst p \<noteq> i \<and> address4 (snd p) = a) cs \<noteq> None)"

fun unguarded :: "request \<Rightarrow> World \<Rightarrow> bool" where
  "unguarded (UpdateClientAddress i a) w = held_by_other (registry w) i a"
| "unguarded _ w = False"

text \<open>
  The worlds reached from an empty registry by requests none of which is an
  \<^verbatim>\<open>updateClientAddress\<close> to an address that another client holds.
\<close>

inductive reachable :: "Deps \<Rightarrow> World \<Rightarrow> bool" for deps :: Deps where
  initial: "registry w = [] \<Longrightarrow> reachable deps w"
| step: "reachable deps w \<Longrightarrow> \<not> unguarded req w \<Longrightarrow> reachable deps (serve deps req w)"

subsection \<open>Sequences of user creations\<close>




section \<open>Example data\<close>

definition example_user :: User where
  "example_user =
     \<lparr>user_id = ''1'', password = ''h:Str0ng-Pass'', username = ''administrator'',
      user_name = None, role = ADMIN, user_enabled = True,
      user_createdAt = 1000, user_updatedAt = 1000\<rparr>"

definition example_low :: Low where
  "example_low =
     \<lparr>data = \<lparr>system = None, users = [], clients = []\<rparr>,
      stored = \<lparr>system = None, users = [], clients = []\<rparr>\<rparr>"

text \<open>
  An instance of the collaborators: the ranges and the dotted-quad and compressed
  forms of the addresses of two small pools, constant renderers, and a gateway that
  never rejects.
\<close>

function hex_of_nat :: "nat \<Rightarrow> string" where
  "hex_of_nat n =
     (if n div 16 = 0 then [digit_char n]
      else hex_of_nat (n div 16) @ [digit_char (n mod 16)])"
  by pat_completeness auto
termination
  by (relation "measure (\<lambda>n. n)") auto

definition example_parseCidr :: "string \<Rightarrow> Cidr" where
  "example_parseCidr s =
     (if s = ''10.8.0.0/24'' then \<lparr>cidr_start = 168296448, cidr_end = 168296703\<rparr>
      else if s = ''10.8.0.0/30'' then \<lparr>cidr_start = 168296448, cidr_end = 168296451\<rparr>
      else if s = ''fdcc:ad94:bacf:61a4::cafe:0/112'' then
        \<lparr>cidr_start = 337357432133169225097233991690396499968,
         cidr_end = 337357432133169225097233991690396565503\<rparr>
      else \<lparr>cidr_start = 0, cidr_end = 0\<rparr>)"

definition example_stringifyIp :: "int \<Rightarrow> nat \<Rightarrow> string" where
  "example_stringifyIp i v =
     (if v = 4 then
        decimal_of_nat (nat (i div 16777216 mod 256)) @ ''.''
        @ decimal_of_nat (nat (i div 65536 mod 256)) @ ''.''
        @ decimal_of_nat (nat (i div 256 mod 256)) @ ''.''
        @ decimal_of_nat (nat (i mod 256))
      else ''fdcc:ad94:bacf:61a4::cafe:'' @ hex_of_nat (nat (i mod 65536)))"

definition example_deps :: Deps where
  "example_deps =
     \<lparr>parseCidr = example_parseCidr,
      stringifyIp = example_stringifyIp,
      isIPv4 = (\<lambda>s. s \<in> set [''10.8.0.2'', ''10.8.0.3'', ''10.8.0.4'']),
      toEndOfDay = (\<lambda>s. if s = ''2030-01-01'' then Some 1893542399000 else None),
      crc32_hex = (\<lambda>key. ''5f2a9c1e''),
      generateServerInterface = (\<lambda>sys. ''[Interface]''),
      generateServerPeer = (\<lambda>c. ''[Peer] PublicKey = '' @ publicKey c),
      wg_up = (\<lambda>conf. None),
      wg_sync = (\<lambda>conf. None)\<rparr>"

definition example_system :: System where
  "example_system =
     \<lparr>userConfig = \<lparr>address4Range = ''10.8.0.0/24'',
                    address6Range = ''fdcc:ad94:bacf:61a4::cafe:0/112'',
                    allowedIps = [''0.0.0.0/0'', ''::/0''], defaultPersistentKeepalive = 0\<rparr>,
      clientExpiration = \<lparr>feature_enabled = True\<rparr>,
      oneTimeLinks = \<lparr>feature_enabled = True\<rparr>\<rparr>"

definition example_world :: World where
  "example_world =
     \<lparr>lowdb = \<lparr>data = \<lparr>system = Some example_system, users = [], clients = []\<rparr>,
               stored = \<lparr>system = Some example_system, users = [], clients = []\<rparr>\<rparr>,
      wg0_conf = None, wg_calls = []\<rparr>"

definition example_gen :: "string \<Rightarrow> Generated" where
  "example_gen n =
     \<lparr>gen_privateKey = ''priv-'' @ n, gen_publicKey = ''pub-'' @ n,
      gen_preSharedKey = ''psk-'' @ n, gen_uuid = ''uuid-'' @ n, gen_now = 1000\<rparr>"

text \<open>The world after \<^verbatim>\<open>createClient\<close> for alice, and then for bob.\<close>

definition example_world1 :: World where
  "example_world1 =
     serve example_deps (CreateClient (example_gen ''a'') ''alice'' None) example_world"

definition example_world2 :: World where
  "example_world2 =
     serve example_deps (CreateClient (example_gen ''b'') ''bob'' None) example_world1"

text \<open>Bob disabled; a one-time link for alice; a pool with one usable IPv4 address.\<close>

definition example_world3 :: World where
  "example_world3 = serve example_deps (DisableClient ''uuid-b'') example_world2"




definition example_system_small :: System where
  "example_system_small =
     example_system\<lparr>userConfig := (userConfig example_system)\<lparr>address4Range := ''10.8.0.0/30''\<rparr>\<rparr>"

definition example_world_small :: World where
  "example_world_small =
     serve example_deps (CreateClient (example_gen ''a'') ''alice'' None)
       (example_world\<lparr>lowdb := (lowdb example_world)\<lparr>data := (data (lowdb example_world))
          \<lparr>system := Some example_system_small\<rparr>\<rparr>\<rparr>)"

text \<open>
  Bob moved to an address that nobody holds; carol, created with an expiration date
  and given a one-time link.
\<close>

definition example_world4 :: World where
  "example_world4 = serve example_deps (UpdateClientAddress ''uuid-b'' ''10.8.0.4'') example_world2"

definition example_world_expiring :: World where
  "example_world_expiring =
     serve example_deps (GenerateOneTimeLink 42 2000 ''uuid-c'')
       (serve example_deps (CreateClient (example_gen ''c'') ''carol'' (Some ''2030-01-01''))
          example_world)"

section \<open>Properties of the user repositories\<close>

declare nextFree.simps [simp del]
declare decimal_of_nat.simps [simp del]
declare hex_of_nat.simps [simp del]

lemma InMemory_saveUser_id: "InMemory_saveUser u d = d"
  by (simp add: InMemory_saveUser_def Let_def)

lemma LowDBUser_update_data: "data (LowDBUser_update u low) = data low"
  by (simp add: LowDBUser_update_def low_write_def Let_def)

text \<open>
  C7. For a user \<open>u\<close> whose id is in the store, \<^verbatim>\<open>saveUser(u)\<close> (in-memory) returns
  the data unchanged, and \<^verbatim>\<open>update(u)\<close> (file-backed) leaves \<open>data\<close> unchanged and
  writes it to disk as it is: in both the user stored under that id is the old record,
  not the one given.
\<close>

theorem saveUser_keeps_stored_user:
  assumes "InMemory_getUser d (IdObject u) = Some old"
    and "LowDBUser_findById low (user_id u) = Some old'"
  shows "InMemory_saveUser u d = d
       \<and> InMemory_getUser (InMemory_saveUser u d) (IdObject u) = Some old
       \<and> data (LowDBUser_update u low) = data low
       \<and> stored (LowDBUser_update u low) = data low
       \<and> LowDBUser_findById (LowDBUser_update u low) (user_id u) = Some old'"
  using assms
  by (simp add: InMemory_saveUser_id LowDBUser_update_data LowDBUser_findById_def)
     (simp add: LowDBUser_update_def low_write_def Let_def LowDBUser_findById_def)

theorem saveUser_keeps_stored_user_witness:
  "InMemory_saveUser (example_user\<lparr>username := ''renamed-admin''\<rparr>)
       \<lparr>im_system = None :: unit option, im_users = [example_user]\<rparr>
     = \<lparr>im_system = None, im_users = [example_user]\<rparr>
   \<and> users (data (LowDBUser_update (example_user\<lparr>username := ''renamed-admin''\<rparr>)
       (example_low\<lparr>data := (data example_low)\<lparr>users := [example_user]\<rparr>\<rparr>))) = [example_user]
   \<and> example_user\<lparr>username := ''renamed-admin''\<rparr> \<noteq> example_user"
proof -
  have h1: "InMemory_getUser \<lparr>im_system = None :: unit option, im_users = [example_user]\<rparr>
              (IdObject (example_user\<lparr>username := ''renamed-admin''\<rparr>)) = Some example_user"
    by simp
  have h2: "LowDBUser_findById (example_low\<lparr>data := (data example_low)\<lparr>users := [example_user]\<rparr>\<rparr>)
              (user_id (example_user\<lparr>username := ''renamed-admin''\<rparr>)) = Some example_user"
    by (simp add: LowDBUser_findById_def)
  have h3: "example_user\<lparr>username := ''renamed-admin''\<rparr> \<noteq> example_user"
    by (simp add: example_user_def)
  show ?thesis
    using saveUser_keeps_stored_user[OF h1 h2] h3 by simp
qed










lemma InMemory_rejects_short_username:
  "length uname < 8 \<Longrightarrow>
     InMemory_newUserWithPassword ips h now uname pw d = (Inl (DbError ERROR_USERNAME_LEN), d)"
  by (simp add: InMemory_newUserWithPassword_def)

text \<open>
  C9. The file-backed \<^verbatim>\<open>create\<close> has no check of the username's length: on an empty
  collection, the five-character username \<^verbatim>\<open>admin\<close> is accepted with any password and
  the user is persisted (as \<open>ADMIN\<close>). The in-memory \<^verbatim>\<open>newUserWithPassword\<close> rejects it
  (\<open>InMemory_rejects_short_username\<close>).
\<close>

theorem LowDBUser_create_accepts_short_username:
  "length ''admin'' < (8::nat)
   \<and> fst (LowDBUser_create h ''uuid-1'' 1000 ''admin'' pw example_low) = Inr ()
   \<and> users (data (snd (LowDBUser_create h ''uuid-1'' 1000 ''admin'' pw example_low)))
       = [\<lparr>user_id = ''uuid-1'', password = h pw, username = ''admin'',
           user_name = Some ''Administrator'', role = ADMIN, user_enabled = True,
           user_createdAt = 1000, user_updatedAt = 1000\<rparr>]
   \<and> users (stored (snd (LowDBUser_create h ''uuid-1'' 1000 ''admin'' pw example_low)))
       = users (data (snd (LowDBUser_create h ''uuid-1'' 1000 ''admin'' pw example_low)))"
  by (simp add: LowDBUser_create_def example_low_def low_update_def low_write_def Let_def)

section \<open>Properties of the registry and of the service\<close>

lemma saveWireguardConfig_lowdb [simp]: "lowdb (snd (saveWireguardConfig deps w)) = lowdb w"
  by (simp add: saveWireguardConfig_def Let_def split: sum.splits)

lemma syncWireguardConfig_lowdb [simp]: "lowdb (snd (syncWireguardConfig deps w)) = lowdb w"
  by (simp add: syncWireguardConfig_def Let_def split: option.splits)

lemma saveConfig_lowdb [simp]: "lowdb (snd (saveConfig deps w)) = lowdb w"
proof (cases "saveWireguardConfig deps w")
  case (Pair r w1)
  have "lowdb w1 = lowdb w" using saveWireguardConfig_lowdb[of deps w] Pair by simp
  then show ?thesis
    using syncWireguardConfig_lowdb[of deps w1]
    by (cases r) (simp_all add: saveConfig_def andThen_def Pair)
qed

lemma registry_saveConfig [simp]: "registry (snd (saveConfig deps w)) = registry w"
  by (simp add: registry_def)

lemma dict_get_dict_set_same [simp]: "dict_get k (dict_set k v d) = Some v"
  by (induction d) (auto simp: dict_get_def)

lemma dict_get_dict_set_other [simp]: "k' \<noteq> k \<Longrightarrow> dict_get k' (dict_set k v d) = dict_get k' d"
  by (induction d) (auto simp: dict_get_def)







lemma push_peers_eq:
  "push_peers deps cs result = result @ map (generateServerPeer deps) (filter enabled cs)"
  by (induction cs arbitrary: result) auto

lemma config_blocks_eq:
  "config_blocks deps sys cs
     = generateServerInterface deps sys # map (generateServerPeer deps) (filter enabled (dict_values cs))"
  by (simp add: config_blocks_def push_peers_eq)

text \<open>
  C4. The blocks of the rendered configuration are the interface block followed by
  the peer block of each enabled client, in the order of the registry: one block per
  enabled client and none for a disabled one, so that the configuration is the same
  as for the registry without its disabled clients. \<^verbatim>\<open>#saveWireguardConfig\<close> writes
  these blocks joined by an empty line.
\<close>

theorem config_one_block_per_enabled_client:
  "config_blocks deps sys cs
     = generateServerInterface deps sys
       # map (generateServerPeer deps) (filter enabled (dict_values cs))
   \<and> length (config_blocks deps sys cs) = 1 + length (filter enabled (dict_values cs))
   \<and> config_blocks deps sys (filter (\<lambda>p. enabled (snd p)) cs) = config_blocks deps sys cs
   \<and> (Database_getSystem w = Inr sys \<longrightarrow>
        saveWireguardConfig deps w
          = (Inr (), w\<lparr>wg0_conf := Some (join [CHR 0x0A, CHR 0x0A]
               (generateServerInterface deps sys
                # map (generateServerPeer deps) (filter enabled (dict_values (registry w)))))\<rparr>))"
proof (intro conjI impI)
  show "config_blocks deps sys cs
     = generateServerInterface deps sys
       # map (generateServerPeer deps) (filter enabled (dict_values cs))"
    by (rule config_blocks_eq)
  show "length (config_blocks deps sys cs) = 1 + length (filter enabled (dict_values cs))"
    by (simp add: config_blocks_eq)
  show "config_blocks deps sys (filter (\<lambda>p. enabled (snd p)) cs) = config_blocks deps sys cs"
    by (simp add: config_blocks_eq dict_values_def filter_map comp_def)
next
  assume "Database_getSystem w = Inr sys"
  then show "saveWireguardConfig deps w
          = (Inr (), w\<lparr>wg0_conf := Some (join [CHR 0x0A, CHR 0x0A]
               (generateServerInterface deps sys
                # map (generateServerPeer deps) (filter enabled (dict_values (registry w)))))\<rparr>)"
    by (simp add: saveWireguardConfig_def config_blocks_eq registry_def Database_getClients_def
        LowDBClient_findAll_def)
qed

theorem config_one_block_per_enabled_client_witness:
  "map (\<lambda>c. (publicKey c, enabled c)) (dict_values (registry example_world3))
     = [(''pub-a'', True), (''pub-b'', False)]
   \<and> saveWireguardConfig example_deps example_world3
     = (Inr (), example_world3\<lparr>wg0_conf :=
          Some (''[Interface]'' @ [CHR 0x0A, CHR 0x0A] @ ''[Peer] PublicKey = pub-a'')\<rparr>)"
proof -
  have h: "Database_getSystem example_world3 = Inr example_system"
    by code_simp
  have e: "join [CHR 0x0A, CHR 0x0A]
             (generateServerInterface example_deps example_system
              # map (generateServerPeer example_deps)
                  (filter enabled (dict_values (registry example_world3))))
           = ''[Interface]'' @ [CHR 0x0A, CHR 0x0A] @ ''[Peer] PublicKey = pub-a''"
    by code_simp
  have c: "map (\<lambda>c. (publicKey c, enabled c)) (dict_values (registry example_world3))
     = [(''pub-a'', True), (''pub-b'', False)]"
    by code_simp
  from config_one_block_per_enabled_client[of example_deps example_system _ example_world3] h
  have "saveWireguardConfig example_deps example_world3
          = (Inr (), example_world3\<lparr>wg0_conf := Some (join [CHR 0x0A, CHR 0x0A]
               (generateServerInterface example_deps example_system
                # map (generateServerPeer example_deps)
                    (filter enabled (dict_values (registry example_world3)))))\<rparr>)"
    by blast
  with e c show ?thesis by simp
qed

subsection \<open>Allocation\<close>

lemma find_None_image: "(find (\<lambda>c. f c = a) cs = None) = (a \<notin> f ` set cs)"
  by (auto simp: find_None_iff)

lemma nextFree_Some:
  "nextFree str addr cs i hi = Some s \<Longrightarrow>
     \<exists>j. i \<le> j \<and> j \<le> hi \<and> s = str j \<and> str j \<notin> addr ` set cs
         \<and> (\<forall>k. i \<le> k \<and> k < j \<longrightarrow> str k \<in> addr ` set cs)"
proof (induction str addr cs i hi rule: nextFree.induct)
  case (1 str addr cs i hi)
  show ?case
  proof (cases "i \<le> hi")
    case False
    with "1.prems" show ?thesis by (simp add: nextFree.simps)
  next
    case True
    show ?thesis
    proof (cases "str i \<in> addr ` set cs")
      case False
      with True "1.prems" have "s = str i"
        by (simp add: nextFree.simps[of str addr cs i hi] find_None_image Let_def)
      with True False show ?thesis by (intro exI[of _ i]) auto
    next
      case taken: True
      with True "1.prems" have rec: "nextFree str addr cs (i + 1) hi = Some s"
        by (simp add: nextFree.simps[of str addr cs i hi] find_None_image Let_def)
      from taken have "find (\<lambda>client. addr client = str i) cs \<noteq> None"
        by (simp add: find_None_image)
      from "1.IH"[OF True refl refl this rec]
      obtain j where j: "i + 1 \<le> j" "j \<le> hi" "s = str j" "str j \<notin> addr ` set cs"
        "\<forall>k. i + 1 \<le> k \<and> k < j \<longrightarrow> str k \<in> addr ` set cs" by blast
      have "\<forall>k. i \<le> k \<and> k < j \<longrightarrow> str k \<in> addr ` set cs"
      proof (intro allI impI)
        fix k assume k: "i \<le> k \<and> k < j"
        show "str k \<in> addr ` set cs"
        proof (cases "k = i")
          case True with taken show ?thesis by simp
        next
          case False with k j(5) show ?thesis by simp
        qed
      qed
      with j show ?thesis by (intro exI[of _ j]) auto
    qed
  qed
qed

lemma nextFree_None:
  "(nextFree str addr cs i hi = None) = (\<forall>j. i \<le> j \<and> j \<le> hi \<longrightarrow> str j \<in> addr ` set cs)"
proof (induction str addr cs i hi rule: nextFree.induct)
  case (1 str addr cs i hi)
  show ?case
  proof (cases "i \<le> hi")
    case False
    then show ?thesis by (auto simp: nextFree.simps[of str addr cs i hi])
  next
    case True
    show ?thesis
    proof (cases "str i \<in> addr ` set cs")
      case False
      with True show ?thesis
        by (auto simp: nextFree.simps[of str addr cs i hi] find_None_image Let_def)
    next
      case taken: True
      then have f: "find (\<lambda>client. addr client = str i) cs \<noteq> None"
        by (simp add: find_None_image)
      have "(nextFree str addr cs i hi = None) = (nextFree str addr cs (i + 1) hi = None)"
        using True taken by (simp add: nextFree.simps[of str addr cs i hi] find_None_image Let_def)
      also have "\<dots> = (\<forall>j. i + 1 \<le> j \<and> j \<le> hi \<longrightarrow> str j \<in> addr ` set cs)"
        using "1.IH"[OF True refl refl f] .
      also have "\<dots> = (\<forall>j. i \<le> j \<and> j \<le> hi \<longrightarrow> str j \<in> addr ` set cs)"
      proof
        assume a: "\<forall>j. i + 1 \<le> j \<and> j \<le> hi \<longrightarrow> str j \<in> addr ` set cs"
        show "\<forall>j. i \<le> j \<and> j \<le> hi \<longrightarrow> str j \<in> addr ` set cs"
        proof (intro allI impI)
          fix j assume j: "i \<le> j \<and> j \<le> hi"
          show "str j \<in> addr ` set cs"
          proof (cases "j = i")
            case True with taken show ?thesis by simp
          next
            case False with j a show ?thesis by simp
          qed
        qed
      next
        assume "\<forall>j. i \<le> j \<and> j \<le> hi \<longrightarrow> str j \<in> addr ` set cs"
        then show "\<forall>j. i + 1 \<le> j \<and> j \<le> hi \<longrightarrow> str j \<in> addr ` set cs" by simp
      qed
      finally show ?thesis .
    qed
  qed
qed

lemma nextFree_first:
  assumes "i \<le> j" "j \<le> hi" "str j \<notin> addr ` set cs"
    and "\<forall>k. i \<le> k \<and> k < j \<longrightarrow> str k \<in> addr ` set cs"
  shows "nextFree str addr cs i hi = Some (str j)"
proof (cases "nextFree str addr cs i hi")
  case None
  with assms show ?thesis by (auto simp: nextFree_None)
next
  case (Some s)
  from nextFree_Some[OF Some] obtain j' where j': "i \<le> j'" "j' \<le> hi" "s = str j'"
    "str j' \<notin> addr ` set cs" "\<forall>k. i \<le> k \<and> k < j' \<longrightarrow> str k \<in> addr ` set cs" by blast
  have "\<not> j' < j" using assms(4) j'(1,4) by blast
  moreover have "\<not> j < j'" using j'(5) assms(1,3) by blast
  ultimately have "j' = j" by simp
  with Some j' show ?thesis by simp
qed

lemma nextAddress4_None:
  "(nextAddress4 deps sys cs = None) =
     (\<forall>j. cidr_start (parseCidr deps (address4Range (userConfig sys))) + 2 \<le> j
          \<and> j \<le> cidr_end (parseCidr deps (address4Range (userConfig sys))) - 1
        \<longrightarrow> stringifyIp deps j 4 \<in> address4 ` set (dict_values cs))"
  by (simp add: nextAddress4_def Let_def nextFree_None)

lemma nextAddress6_None:
  "(nextAddress6 deps sys cs = None) =
     (\<forall>j. cidr_start (parseCidr deps (address6Range (userConfig sys))) + 2 \<le> j
          \<and> j \<le> cidr_end (parseCidr deps (address6Range (userConfig sys))) - 1
        \<longrightarrow> stringifyIp deps j 6 \<in> address6 ` set (dict_values cs))"
  by (simp add: nextAddress6_def Let_def nextFree_None)

lemma createClient_exhausted4:
  assumes "Database_getSystem w = Inr sys" and "falsy (nextAddress4 deps sys (registry w))"
  shows "createClient deps g name expireDate w
           = (Inl (pool_exhausted ''IPv4 Address Pool exhausted''), w)"
  using assms
  by (simp add: createClient_def registry_def Database_getClients_def LowDBClient_findAll_def)

lemma createClient_exhausted6:
  assumes "Database_getSystem w = Inr sys" and "\<not> falsy (nextAddress4 deps sys (registry w))"
    and "falsy (nextAddress6 deps sys (registry w))"
  shows "createClient deps g name expireDate w
           = (Inl (pool_exhausted ''IPv6 Address Pool exhausted''), w)"
  using assms
  by (simp add: createClient_def registry_def Database_getClients_def LowDBClient_findAll_def)

text \<open>
  C3. If the IPv4 pool or the IPv6 pool has no free address in its range,
  \<^verbatim>\<open>createClient\<close> rejects with status 409 (cause: the IPv4 or the IPv6 pool is
  exhausted) and the world is as before: no client is persisted, \<^verbatim>\<open>wg0.conf\<close> is not
  written and the gateway is not called.
\<close>

theorem createClient_all_or_nothing:
  assumes sys: "Database_getSystem w = Inr sys"
    and exhausted:
      "(\<forall>j. cidr_start (parseCidr deps (address4Range (userConfig sys))) + 2 \<le> j
            \<and> j \<le> cidr_end (parseCidr deps (address4Range (userConfig sys))) - 1
          \<longrightarrow> stringifyIp deps j 4 \<in> address4 ` set (dict_values (registry w)))
       \<or> (\<forall>j. cidr_start (parseCidr deps (address6Range (userConfig sys))) + 2 \<le> j
            \<and> j \<le> cidr_end (parseCidr deps (address6Range (userConfig sys))) - 1
          \<longrightarrow> stringifyIp deps j 6 \<in> address6 ` set (dict_values (registry w)))"
  shows "\<exists>c. createClient deps g name expireDate w
               = (Inl (HttpError 409 ''Maximum number of clients reached.'' (Some c)), w)
            \<and> (c = ''IPv4 Address Pool exhausted'' \<or> c = ''IPv6 Address Pool exhausted'')"
proof (cases "falsy (nextAddress4 deps sys (registry w))")
  case True
  from createClient_exhausted4[OF sys True] show ?thesis
    by (simp add: pool_exhausted_def)
next
  case False
  then have "nextAddress4 deps sys (registry w) \<noteq> None" by (auto simp: falsy_def)
  with exhausted have "nextAddress6 deps sys (registry w) = None"
    by (simp only: nextAddress4_None nextAddress6_None) blast
  then have "falsy (nextAddress6 deps sys (registry w))" by (simp add: falsy_def)
  from createClient_exhausted6[OF sys False this] show ?thesis
    by (simp add: pool_exhausted_def)
qed

theorem createClient_all_or_nothing_witness:
  "map address4 (dict_values (registry example_world_small)) = [''10.8.0.2'']
   \<and> createClient example_deps (example_gen ''b'') ''bob'' None example_world_small
     = (Inl (HttpError 409 ''Maximum number of clients reached.''
              (Some ''IPv4 Address Pool exhausted'')), example_world_small)"
proof -
  have s: "Database_getSystem example_world_small = Inr example_system_small"
    by code_simp
  have lo: "cidr_start (parseCidr example_deps (address4Range (userConfig example_system_small))) + 2 = 168296450"
    by code_simp
  have hi: "cidr_end (parseCidr example_deps (address4Range (userConfig example_system_small))) - 1 = 168296450"
    by code_simp
  have m: "stringifyIp example_deps 168296450 4
             \<in> address4 ` set (dict_values (registry example_world_small))"
    by code_simp
  have ex: "\<forall>j. cidr_start (parseCidr example_deps (address4Range (userConfig example_system_small))) + 2 \<le> j
            \<and> j \<le> cidr_end (parseCidr example_deps (address4Range (userConfig example_system_small))) - 1
          \<longrightarrow> stringifyIp example_deps j 4 \<in> address4 ` set (dict_values (registry example_world_small))"
  proof (intro allI impI)
    fix j :: int
    assume "cidr_start (parseCidr example_deps (address4Range (userConfig example_system_small))) + 2 \<le> j
            \<and> j \<le> cidr_end (parseCidr example_deps (address4Range (userConfig example_system_small))) - 1"
    then have "j = 168296450" unfolding lo hi by linarith
    with m show "stringifyIp example_deps j 4 \<in> address4 ` set (dict_values (registry example_world_small))"
      by simp
  qed
  have c: "map address4 (dict_values (registry example_world_small)) = [''10.8.0.2'']"
    by code_simp
  have n: "createClient example_deps (example_gen ''b'') ''bob'' None example_world_small
     \<noteq> (Inl (HttpError 409 ''Maximum number of clients reached.''
              (Some ''IPv6 Address Pool exhausted'')), example_world_small)"
    by code_simp
  from createClient_all_or_nothing[OF s disjI1[OF ex], of "example_gen ''b''" "''bob''" None] n c
  show ?thesis by auto
qed

lemma nextAddress4_first:
  assumes "cidr_start (parseCidr deps (address4Range (userConfig sys))) + 2 \<le> j"
    and "j \<le> cidr_end (parseCidr deps (address4Range (userConfig sys))) - 1"
    and "stringifyIp deps j 4 \<notin> address4 ` set (dict_values cs)"
    and "\<forall>k. cidr_start (parseCidr deps (address4Range (userConfig sys))) + 2 \<le> k \<and> k < j
           \<longrightarrow> stringifyIp deps k 4 \<in> address4 ` set (dict_values cs)"
  shows "nextAddress4 deps sys cs = Some (stringifyIp deps j 4)"
  unfolding nextAddress4_def Let_def
  by (rule nextFree_first[where str = "\<lambda>i. stringifyIp deps i 4"]) (use assms in auto)

lemma nextAddress6_first:
  assumes "cidr_start (parseCidr deps (address6Range (userConfig sys))) + 2 \<le> j"
    and "j \<le> cidr_end (parseCidr deps (address6Range (userConfig sys))) - 1"
    and "stringifyIp deps j 6 \<notin> address6 ` set (dict_values cs)"
    and "\<forall>k. cidr_start (parseCidr deps (address6Range (userConfig sys))) + 2 \<le> k \<and> k < j
           \<longrightarrow> stringifyIp deps k 6 \<in> address6 ` set (dict_values cs)"
  shows "nextAddress6 deps sys cs = Some (stringifyIp deps j 6)"
  unfolding nextAddress6_def Let_def
  by (rule nextFree_first[where str = "\<lambda>i. stringifyIp deps i 6"]) (use assms in auto)

lemma nextAddress4_fresh:
  "nextAddress4 deps sys cs = Some a \<Longrightarrow> a \<notin> address4 ` set (dict_values cs)"
  unfolding nextAddress4_def Let_def by (drule nextFree_Some) auto

lemma nextAddress6_fresh:
  "nextAddress6 deps sys cs = Some a \<Longrightarrow> a \<notin> address6 ` set (dict_values cs)"
  unfolding nextAddress6_def Let_def by (drule nextFree_Some) auto

lemma registry_Database_createClient:
  "registry (Database_createClient now c w)
     = dict_set (client_id c) (NewClient.extend c (Client.fields now now)) (registry w)"
  by (simp add: registry_def Database_createClient_def LowDBClient_create_def low_update_def
      low_write_def Let_def)

lemma andThen_saveConfig_result:
  "\<exists>r. andThen (saveConfig deps w1) (\<lambda>_ w'. (Inr x, w'))
         = (r, snd (saveConfig deps w1)) \<and> (r = Inr x \<or> (\<exists>e. r = Inl e))"
proof (cases "saveConfig deps w1")
  case (Pair r w2)
  then show ?thesis by (cases r) (simp_all add: andThen_def)
qed

lemma registry_andThen_saveConfig:
  "registry (snd (andThen (saveConfig deps w1) (\<lambda>_ w'. (Inr x, w')))) = registry w1"
  using andThen_saveConfig_result[of deps w1 x] by auto

text \<open>createClient once both allocations have given a non-empty address.\<close>

lemma createClient_allocated:
  assumes sys: "Database_getSystem w = Inr sys"
    and a4: "nextAddress4 deps sys (registry w) = Some a4" "a4 \<noteq> []"
    and a6: "nextAddress6 deps sys (registry w) = Some a6" "a6 \<noteq> []"
    and C: "C = \<lparr>client_id = gen_uuid g, client_name = name, address4 = a4, address6 = a6,
                 privateKey = gen_privateKey g, publicKey = gen_publicKey g,
                 preSharedKey = gen_preSharedKey g, endpoint = None, oneTimeLink = None,
                 expiresAt = None, enabled = True, allowedIPs = allowedIps (userConfig sys),
                 serverAllowedIPs = None,
                 persistentKeepalive = defaultPersistentKeepalive (userConfig sys)\<rparr>"
  shows "createClient deps g name expireDate w =
           (case (if \<not> falsy expireDate then
                    (case toEndOfDay deps (the expireDate) of
                       None \<Rightarrow> Inl RangeError
                     | Some t \<Rightarrow> Inr (C\<lparr>expiresAt := Some t\<rparr>))
                  else Inr C) of
              Inl e \<Rightarrow> (Inl e, w)
            | Inr client \<Rightarrow>
                andThen (saveConfig deps (Database_createClient (gen_now g) client w))
                  (\<lambda>_ w'. (Inr client, w')))"
proof -
  have r: "clients (data (lowdb w)) = registry w" by (simp add: registry_def)
  show ?thesis
    unfolding createClient_def Database_getClients_def LowDBClient_findAll_def r sys C
    using a4 a6 by (simp add: falsy_def Let_def)
qed

lemma createClient_registry:
  assumes sys: "Database_getSystem w = Inr sys"
  shows "registry (snd (createClient deps g name expireDate w)) = registry w
       \<or> (\<exists>c a4 a6. nextAddress4 deps sys (registry w) = Some a4
            \<and> nextAddress6 deps sys (registry w) = Some a6
            \<and> address4 c = a4 \<and> address6 c = a6 \<and> client_id c = gen_uuid g
            \<and> registry (snd (createClient deps g name expireDate w))
                = dict_set (gen_uuid g) (NewClient.extend c (Client.fields (gen_now g) (gen_now g)))
                    (registry w))"
proof (cases "falsy (nextAddress4 deps sys (registry w))")
  case True
  from createClient_exhausted4[OF sys True] show ?thesis by simp
next
  case f4: False
  show ?thesis
  proof (cases "falsy (nextAddress6 deps sys (registry w))")
    case True
    from createClient_exhausted6[OF sys f4 True] show ?thesis by simp
  next
    case f6: False
    from f4 obtain a4 where a4: "nextAddress4 deps sys (registry w) = Some a4" "a4 \<noteq> []"
      by (auto simp: falsy_def)
    from f6 obtain a6 where a6: "nextAddress6 deps sys (registry w) = Some a6" "a6 \<noteq> []"
      by (auto simp: falsy_def)
    define C where "C = \<lparr>client_id = gen_uuid g, client_name = name, address4 = a4, address6 = a6,
                 privateKey = gen_privateKey g, publicKey = gen_publicKey g,
                 preSharedKey = gen_preSharedKey g, endpoint = None, oneTimeLink = None,
                 expiresAt = None, enabled = True, allowedIPs = allowedIps (userConfig sys),
                 serverAllowedIPs = None,
                 persistentKeepalive = defaultPersistentKeepalive (userConfig sys)\<rparr>"
    have Cf: "address4 C = a4" "address6 C = a6" "client_id C = gen_uuid g"
      by (simp_all add: C_def)
    note eq = createClient_allocated[OF sys a4 a6 C_def, of expireDate]
    show ?thesis
    proof (cases "if \<not> falsy expireDate then
                    (case toEndOfDay deps (the expireDate) of
                       None \<Rightarrow> Inl RangeError
                     | Some t \<Rightarrow> Inr (C\<lparr>expiresAt := Some t\<rparr>))
                  else Inr C")
      case (Inl e)
      with eq show ?thesis by simp
    next
      case (Inr client)
      then have cf: "address4 client = a4" "address6 client = a6" "client_id client = gen_uuid g"
        using Cf by (auto split: if_splits option.splits)
      from eq Inr have "registry (snd (createClient deps g name expireDate w))
          = dict_set (gen_uuid g) (NewClient.extend client (Client.fields (gen_now g) (gen_now g)))
              (registry w)"
        by (simp add: registry_andThen_saveConfig registry_Database_createClient cf)
      with a4 a6 cf show ?thesis by blast
    qed
  qed
qed

lemma getSystem_Database_createClient:
  "Database_getSystem (Database_createClient now c w) = Database_getSystem w"
  by (simp add: Database_getSystem_def Database_createClient_def LowDBClient_create_def
      LowDBSystem_get_def low_update_def low_write_def Let_def)

lemma saveConfig_resolves:
  assumes "Database_getSystem w = Inr sys" and "\<forall>conf. wg_sync deps conf = None"
  shows "fst (saveConfig deps w) = Inr ()"
  using assms
  by (simp add: saveConfig_def saveWireguardConfig_def syncWireguardConfig_def andThen_def Let_def)

text \<open>
  C2. With the system configuration read, the allocation of each family runs from the
  range's start plus 2 to its end minus 1 (the last address is not tried) and gives
  the first address of that range that no client has. If no address of the IPv4 range
  is free the allocation gives nothing and \<^verbatim>\<open>createClient\<close> rejects with the IPv4 pool
  exhausted, the world unchanged; likewise for IPv6 (the rejection then names one of
  the two pools). A \<^verbatim>\<open>createClient\<close> that resolves returns and persists a client with
  the two addresses allocated; and when both allocations give a non-empty address and
  no expiration date is given, the client is persisted with them, and returned if the
  sync does not reject.
\<close>

theorem allocation_first_free:
  fixes deps :: Deps and sys :: System and w :: World
  defines "lo4 \<equiv> cidr_start (parseCidr deps (address4Range (userConfig sys))) + 2"
    and "hi4 \<equiv> cidr_end (parseCidr deps (address4Range (userConfig sys))) - 1"
    and "lo6 \<equiv> cidr_start (parseCidr deps (address6Range (userConfig sys))) + 2"
    and "hi6 \<equiv> cidr_end (parseCidr deps (address6Range (userConfig sys))) - 1"
    and "taken4 \<equiv> address4 ` set (dict_values (registry w))"
    and "taken6 \<equiv> address6 ` set (dict_values (registry w))"
  assumes sys: "Database_getSystem w = Inr sys"
  shows
    "(lo4 \<le> j4 \<and> j4 \<le> hi4 \<and> stringifyIp deps j4 4 \<notin> taken4
        \<and> (\<forall>k. lo4 \<le> k \<and> k < j4 \<longrightarrow> stringifyIp deps k 4 \<in> taken4)
      \<longrightarrow> nextAddress4 deps sys (registry w) = Some (stringifyIp deps j4 4))
     \<and> (lo6 \<le> j6 \<and> j6 \<le> hi6 \<and> stringifyIp deps j6 6 \<notin> taken6
        \<and> (\<forall>k. lo6 \<le> k \<and> k < j6 \<longrightarrow> stringifyIp deps k 6 \<in> taken6)
      \<longrightarrow> nextAddress6 deps sys (registry w) = Some (stringifyIp deps j6 6))
     \<and> ((\<forall>k. lo4 \<le> k \<and> k \<le> hi4 \<longrightarrow> stringifyIp deps k 4 \<in> taken4)
      \<longrightarrow> nextAddress4 deps sys (registry w) = None
          \<and> createClient deps g name expireDate w
              = (Inl (pool_exhausted ''IPv4 Address Pool exhausted''), w))
     \<and> ((\<forall>k. lo6 \<le> k \<and> k \<le> hi6 \<longrightarrow> stringifyIp deps k 6 \<in> taken6)
      \<longrightarrow> nextAddress6 deps sys (registry w) = None
          \<and> (\<exists>c. createClient deps g name expireDate w = (Inl (pool_exhausted c), w)))
     \<and> (createClient deps g name expireDate w = (Inr c, w')
      \<longrightarrow> nextAddress4 deps sys (registry w) = Some (address4 c)
          \<and> nextAddress6 deps sys (registry w) = Some (address6 c)
          \<and> registry w'
              = dict_set (gen_uuid g)
                  (NewClient.extend c (Client.fields (gen_now g) (gen_now g))) (registry w))
     \<and> (nextAddress4 deps sys (registry w) = Some a4 \<and> a4 \<noteq> []
        \<and> nextAddress6 deps sys (registry w) = Some a6 \<and> a6 \<noteq> [] \<and> falsy expireDate
      \<longrightarrow> map_option (\<lambda>c. (address4 c, address6 c))
            (dict_get (gen_uuid g) (registry (snd (createClient deps g name expireDate w))))
            = Some (a4, a6)
          \<and> ((\<forall>conf. wg_sync deps conf = None) \<longrightarrow>
               (\<exists>c. fst (createClient deps g name expireDate w) = Inr c
                    \<and> address4 c = a4 \<and> address6 c = a6)))"
proof (intro conjI impI)
  assume "lo4 \<le> j4 \<and> j4 \<le> hi4 \<and> stringifyIp deps j4 4 \<notin> taken4
        \<and> (\<forall>k. lo4 \<le> k \<and> k < j4 \<longrightarrow> stringifyIp deps k 4 \<in> taken4)"
  then show "nextAddress4 deps sys (registry w) = Some (stringifyIp deps j4 4)"
    unfolding lo4_def hi4_def taken4_def by (intro nextAddress4_first) simp_all
next
  assume "lo6 \<le> j6 \<and> j6 \<le> hi6 \<and> stringifyIp deps j6 6 \<notin> taken6
        \<and> (\<forall>k. lo6 \<le> k \<and> k < j6 \<longrightarrow> stringifyIp deps k 6 \<in> taken6)"
  then show "nextAddress6 deps sys (registry w) = Some (stringifyIp deps j6 6)"
    unfolding lo6_def hi6_def taken6_def by (intro nextAddress6_first) simp_all
next
  assume a: "\<forall>k. lo4 \<le> k \<and> k \<le> hi4 \<longrightarrow> stringifyIp deps k 4 \<in> taken4"
  then show n: "nextAddress4 deps sys (registry w) = None"
    unfolding lo4_def hi4_def taken4_def by (simp only: nextAddress4_None)
  then have "falsy (nextAddress4 deps sys (registry w))" by (simp add: falsy_def)
  from createClient_exhausted4[OF sys this]
  show "createClient deps g name expireDate w
          = (Inl (pool_exhausted ''IPv4 Address Pool exhausted''), w)" .
next
  assume a: "\<forall>k. lo6 \<le> k \<and> k \<le> hi6 \<longrightarrow> stringifyIp deps k 6 \<in> taken6"
  then show n: "nextAddress6 deps sys (registry w) = None"
    unfolding lo6_def hi6_def taken6_def by (simp only: nextAddress6_None)
  then have f6: "falsy (nextAddress6 deps sys (registry w))" by (simp add: falsy_def)
  show "\<exists>c. createClient deps g name expireDate w = (Inl (pool_exhausted c), w)"
  proof (cases "falsy (nextAddress4 deps sys (registry w))")
    case True
    from createClient_exhausted4[OF sys True] show ?thesis by blast
  next
    case False
    from createClient_exhausted6[OF sys False f6] show ?thesis by blast
  qed
next
  assume ok: "createClient deps g name expireDate w = (Inr c, w')"
  have f4: "\<not> falsy (nextAddress4 deps sys (registry w))"
    using createClient_exhausted4[OF sys, of deps g name expireDate] ok by auto
  have f6: "\<not> falsy (nextAddress6 deps sys (registry w))"
    using createClient_exhausted6[OF sys f4, of g name expireDate] ok by auto
  from f4 obtain a4 where a4: "nextAddress4 deps sys (registry w) = Some a4" "a4 \<noteq> []"
    by (auto simp: falsy_def)
  from f6 obtain a6 where a6: "nextAddress6 deps sys (registry w) = Some a6" "a6 \<noteq> []"
    by (auto simp: falsy_def)
  define C where "C = \<lparr>client_id = gen_uuid g, client_name = name, address4 = a4, address6 = a6,
               privateKey = gen_privateKey g, publicKey = gen_publicKey g,
               preSharedKey = gen_preSharedKey g, endpoint = None, oneTimeLink = None,
               expiresAt = None, enabled = True, allowedIPs = allowedIps (userConfig sys),
               serverAllowedIPs = None,
               persistentKeepalive = defaultPersistentKeepalive (userConfig sys)\<rparr>"
  have Cf: "address4 C = a4" "address6 C = a6" "client_id C = gen_uuid g"
    by (simp_all add: C_def)
  note eq = createClient_allocated[OF sys a4 a6 C_def, of expireDate]
  have "nextAddress4 deps sys (registry w) = Some (address4 c)
          \<and> nextAddress6 deps sys (registry w) = Some (address6 c)
          \<and> registry w'
              = dict_set (gen_uuid g)
                  (NewClient.extend c (Client.fields (gen_now g) (gen_now g))) (registry w)"
  proof (cases "if \<not> falsy expireDate then
                  (case toEndOfDay deps (the expireDate) of
                     None \<Rightarrow> Inl RangeError
                   | Some t \<Rightarrow> Inr (C\<lparr>expiresAt := Some t\<rparr>))
                else Inr C")
    case (Inl e)
    with eq ok show ?thesis by simp
  next
    case (Inr client)
    then have cf: "address4 client = a4" "address6 client = a6" "client_id client = gen_uuid g"
      using Cf by (auto split: if_splits option.splits)
    from eq Inr ok
    have t: "andThen (saveConfig deps (Database_createClient (gen_now g) client w))
               (\<lambda>_ w'. (Inr client, w')) = (Inr c, w')" by simp
    from andThen_saveConfig_result[of deps "Database_createClient (gen_now g) client w" client] t
    have "c = client" and "w' = snd (saveConfig deps (Database_createClient (gen_now g) client w))"
      by auto
    then show ?thesis
      using a4 a6 cf by (simp add: registry_Database_createClient)
  qed
  then show "nextAddress4 deps sys (registry w) = Some (address4 c)"
    and "nextAddress6 deps sys (registry w) = Some (address6 c)"
    and "registry w'
              = dict_set (gen_uuid g)
                  (NewClient.extend c (Client.fields (gen_now g) (gen_now g))) (registry w)"
    by simp_all
next
  assume h: "nextAddress4 deps sys (registry w) = Some a4 \<and> a4 \<noteq> []
        \<and> nextAddress6 deps sys (registry w) = Some a6 \<and> a6 \<noteq> [] \<and> falsy expireDate"
  define C where "C = \<lparr>client_id = gen_uuid g, client_name = name, address4 = a4, address6 = a6,
               privateKey = gen_privateKey g, publicKey = gen_publicKey g,
               preSharedKey = gen_preSharedKey g, endpoint = None, oneTimeLink = None,
               expiresAt = None, enabled = True, allowedIPs = allowedIps (userConfig sys),
               serverAllowedIPs = None,
               persistentKeepalive = defaultPersistentKeepalive (userConfig sys)\<rparr>"
  have Cf: "address4 C = a4" "address6 C = a6" "client_id C = gen_uuid g"
    by (simp_all add: C_def)
  from h have h4: "nextAddress4 deps sys (registry w) = Some a4" "a4 \<noteq> []"
    and h6: "nextAddress6 deps sys (registry w) = Some a6" "a6 \<noteq> []"
    and fe: "falsy expireDate" by simp_all
  have eq: "createClient deps g name expireDate w
      = andThen (saveConfig deps (Database_createClient (gen_now g) C w)) (\<lambda>_ w'. (Inr C, w'))"
    using createClient_allocated[OF sys h4 h6 C_def, of expireDate] fe by simp
  have "registry (snd (createClient deps g name expireDate w))
      = dict_set (gen_uuid g) (NewClient.extend C (Client.fields (gen_now g) (gen_now g))) (registry w)"
    by (simp add: eq registry_andThen_saveConfig registry_Database_createClient Cf)
  then show "map_option (\<lambda>c. (address4 c, address6 c))
            (dict_get (gen_uuid g) (registry (snd (createClient deps g name expireDate w))))
            = Some (a4, a6)"
    by (simp add: Cf NewClient.defs Client.defs C_def)
  assume s: "\<forall>conf. wg_sync deps conf = None"
  have "fst (saveConfig deps (Database_createClient (gen_now g) C w)) = Inr ()"
    by (rule saveConfig_resolves[OF _ s]) (simp add: getSystem_Database_createClient sys)
  then have "fst (createClient deps g name expireDate w) = Inr C"
    unfolding eq by (cases "saveConfig deps (Database_createClient (gen_now g) C w)")
      (simp add: andThen_def)
  with Cf show "\<exists>c. fst (createClient deps g name expireDate w) = Inr c
                    \<and> address4 c = a4 \<and> address6 c = a6" by blast
qed

theorem allocation_first_free_witness:
  "nextAddress4 example_deps example_system (registry example_world1) = Some ''10.8.0.3''
   \<and> nextAddress6 example_deps example_system (registry example_world1)
       = Some ''fdcc:ad94:bacf:61a4::cafe:3''
   \<and> map (\<lambda>c. (address4 c, address6 c)) (dict_values (registry example_world2))
       = [(''10.8.0.2'', ''fdcc:ad94:bacf:61a4::cafe:2''),
          (''10.8.0.3'', ''fdcc:ad94:bacf:61a4::cafe:3'')]
   \<and> nextAddress4 example_deps example_system_small (registry example_world_small) = None
   \<and> createClient example_deps (example_gen ''b'') ''bob'' None example_world_small
       = (Inl (pool_exhausted ''IPv4 Address Pool exhausted''), example_world_small)
   \<and> map_option (\<lambda>c. (address4 c, address6 c))
       (dict_get ''uuid-b'' (registry (snd (createClient example_deps (example_gen ''b'') ''bob'' None
          example_world1))))
       = Some (''10.8.0.3'', ''fdcc:ad94:bacf:61a4::cafe:3'')
   \<and> (\<exists>c. createClient example_deps (example_gen ''b'') ''bob'' None example_world1
              = (Inr c, example_world2)
          \<and> address4 c = ''10.8.0.3'' \<and> address6 c = ''fdcc:ad94:bacf:61a4::cafe:3'')"
proof -
  have s1: "Database_getSystem example_world1 = Inr example_system" by code_simp
  have s2: "Database_getSystem example_world_small = Inr example_system_small" by code_simp
  have lo4: "cidr_start (parseCidr example_deps (address4Range (userConfig example_system))) + 2
               = 168296450" by code_simp
  have hi4: "cidr_end (parseCidr example_deps (address4Range (userConfig example_system))) - 1
               = 168296702" by code_simp
  have lo6: "cidr_start (parseCidr example_deps (address6Range (userConfig example_system))) + 2
               = 337357432133169225097233991690396499970" by code_simp
  have hi6: "cidr_end (parseCidr example_deps (address6Range (userConfig example_system))) - 1
               = 337357432133169225097233991690396565502" by code_simp
  have los: "cidr_start (parseCidr example_deps (address4Range (userConfig example_system_small))) + 2
               = 168296450" by code_simp
  have his: "cidr_end (parseCidr example_deps (address4Range (userConfig example_system_small))) - 1
               = 168296450" by code_simp
  have t4: "stringifyIp example_deps 168296450 4
              \<in> address4 ` set (dict_values (registry example_world1))" by code_simp
  have f4: "stringifyIp example_deps 168296451 4
              \<notin> address4 ` set (dict_values (registry example_world1))" by code_simp
  have t6: "stringifyIp example_deps 337357432133169225097233991690396499970 6
              \<in> address6 ` set (dict_values (registry example_world1))" by code_simp
  have f6: "stringifyIp example_deps 337357432133169225097233991690396499971 6
              \<notin> address6 ` set (dict_values (registry example_world1))" by code_simp
  have ts: "stringifyIp example_deps 168296450 4
              \<in> address4 ` set (dict_values (registry example_world_small))" by code_simp
  have v4: "stringifyIp example_deps 168296451 4 = ''10.8.0.3''" by code_simp
  have v6: "stringifyIp example_deps 337357432133169225097233991690396499971 6
              = ''fdcc:ad94:bacf:61a4::cafe:3''" by code_simp
  have b4: "\<forall>k. 168296450 \<le> k \<and> k < 168296451
              \<longrightarrow> stringifyIp example_deps k 4 \<in> address4 ` set (dict_values (registry example_world1))"
  proof (intro allI impI)
    fix k :: int assume "168296450 \<le> k \<and> k < 168296451"
    then have "k = 168296450" by linarith
    with t4 show "stringifyIp example_deps k 4 \<in> address4 ` set (dict_values (registry example_world1))"
      by simp
  qed
  have b6: "\<forall>k. 337357432133169225097233991690396499970 \<le> k
               \<and> k < 337357432133169225097233991690396499971
              \<longrightarrow> stringifyIp example_deps k 6 \<in> address6 ` set (dict_values (registry example_world1))"
  proof (intro allI impI)
    fix k :: int
    assume "337357432133169225097233991690396499970 \<le> k
               \<and> k < 337357432133169225097233991690396499971"
    then have "k = 337357432133169225097233991690396499970" by linarith
    with t6 show "stringifyIp example_deps k 6 \<in> address6 ` set (dict_values (registry example_world1))"
      by simp
  qed
  have bs: "\<forall>k. 168296450 \<le> k \<and> k \<le> 168296450
              \<longrightarrow> stringifyIp example_deps k 4
                    \<in> address4 ` set (dict_values (registry example_world_small))"
  proof (intro allI impI)
    fix k :: int assume "168296450 \<le> k \<and> k \<le> 168296450"
    then have "k = 168296450" by linarith
    with ts show "stringifyIp example_deps k 4
                    \<in> address4 ` set (dict_values (registry example_world_small))"
      by simp
  qed
  note T1 = allocation_first_free[OF s1, of example_deps 168296451
      337357432133169225097233991690396499971, unfolded lo4 hi4 lo6 hi6]
  note T2 = allocation_first_free[OF s2, of example_deps _ _ "example_gen ''b''" "''bob''" None,
      unfolded los his]
  have a: "nextAddress4 example_deps example_system (registry example_world1) = Some ''10.8.0.3''"
    using T1[THEN conjunct1] f4 b4 v4 by simp
  have b: "nextAddress6 example_deps example_system (registry example_world1)
       = Some ''fdcc:ad94:bacf:61a4::cafe:3''"
    using T1[THEN conjunct2, THEN conjunct1] f6 b6 v6 by simp
  have c: "map (\<lambda>c. (address4 c, address6 c)) (dict_values (registry example_world2))
       = [(''10.8.0.2'', ''fdcc:ad94:bacf:61a4::cafe:2''),
          (''10.8.0.3'', ''fdcc:ad94:bacf:61a4::cafe:3'')]" by code_simp
  have d: "nextAddress4 example_deps example_system_small (registry example_world_small) = None
   \<and> createClient example_deps (example_gen ''b'') ''bob'' None example_world_small
       = (Inl (pool_exhausted ''IPv4 Address Pool exhausted''), example_world_small)"
    using T2[THEN conjunct2, THEN conjunct2, THEN conjunct1] bs by simp
  have e: "map_option (\<lambda>c. (address4 c, address6 c))
           (dict_get ''uuid-b'' (registry (snd (createClient example_deps (example_gen ''b'') ''bob'' None
              example_world1))))
           = Some (''10.8.0.3'', ''fdcc:ad94:bacf:61a4::cafe:3'')
       \<and> (\<exists>c. createClient example_deps (example_gen ''b'') ''bob'' None example_world1
                  = (Inr c, example_world2)
              \<and> address4 c = ''10.8.0.3'' \<and> address6 c = ''fdcc:ad94:bacf:61a4::cafe:3'')"
  proof -
    have s1: "Database_getSystem example_world1 = Inr example_system" by code_simp
    have n4: "nextAddress4 example_deps example_system (registry example_world1) = Some ''10.8.0.3''"
      by code_simp
    have n6: "nextAddress6 example_deps example_system (registry example_world1)
         = Some ''fdcc:ad94:bacf:61a4::cafe:3''" by code_simp
    have u: "gen_uuid (example_gen ''b'') = ''uuid-b''" by code_simp
    have sy: "\<forall>conf. wg_sync example_deps conf = None" by (simp add: example_deps_def)
    have fl: "falsy None" by (simp add: falsy_def)
    note T = allocation_first_free[OF s1, of example_deps _ _ "example_gen ''b''" "''bob''" None]
    note T6 = T[THEN conjunct2, THEN conjunct2, THEN conjunct2, THEN conjunct2, THEN conjunct2,
        of "''10.8.0.3''" "''fdcc:ad94:bacf:61a4::cafe:3''", unfolded u]
    from T6 n4 n6 fl sy
    have p: "map_option (\<lambda>c. (address4 c, address6 c))
         (dict_get ''uuid-b'' (registry (snd (createClient example_deps (example_gen ''b'') ''bob'' None
            example_world1))))
         = Some (''10.8.0.3'', ''fdcc:ad94:bacf:61a4::cafe:3'')"
      and "\<exists>c. fst (createClient example_deps (example_gen ''b'') ''bob'' None example_world1) = Inr c
            \<and> address4 c = ''10.8.0.3'' \<and> address6 c = ''fdcc:ad94:bacf:61a4::cafe:3''"
      by simp_all
    then obtain c where c: "fst (createClient example_deps (example_gen ''b'') ''bob'' None example_world1) = Inr c"
      "address4 c = ''10.8.0.3''" "address6 c = ''fdcc:ad94:bacf:61a4::cafe:3''" by blast
    have "snd (createClient example_deps (example_gen ''b'') ''bob'' None example_world1) = example_world2"
      by (simp add: example_world2_def)
    with c have q: "createClient example_deps (example_gen ''b'') ''bob'' None example_world1
                = (Inr c, example_world2)" by (simp add: prod_eq_iff)
    from T[THEN conjunct2, THEN conjunct2, THEN conjunct2, THEN conjunct2, THEN conjunct1,
        of c example_world2] q
    have "nextAddress4 example_deps example_system (registry example_world1) = Some (address4 c)"
      by simp
    with p q c show ?thesis by blast
  qed
  from a b c d e show ?thesis by simp
qed

subsection \<open>Uniqueness of addresses\<close>

lemma set_dict_set: "set (dict_set k v d) \<subseteq> insert (k, v) (set d)"
  by (induction d) auto

lemma set_dict_delete: "set (dict_delete k d) \<subseteq> set d"
  by (induction d) auto

lemma distinct_keys_dict_set:
  "distinct (map fst d) \<Longrightarrow> distinct (map fst (dict_set k v d))"
proof (induction d)
  case Nil
  then show ?case by simp
next
  case (Cons p ps)
  show ?case
  proof (cases "fst p = k")
    case True
    with Cons.prems show ?thesis by auto
  next
    case False
    have "fst p \<notin> fst ` set (dict_set k v ps)"
      using set_dict_set[of k v ps] Cons.prems False by auto
    with Cons False show ?thesis by simp
  qed
qed

lemma distinct_vals_dict_set_fresh:
  "distinct (map f (dict_values d)) \<Longrightarrow> f v \<notin> f ` set (dict_values d) \<Longrightarrow>
     distinct (map f (dict_values (dict_set k v d)))"
proof (induction d)
  case Nil
  then show ?case by (simp add: dict_values_def)
next
  case (Cons p ps)
  show ?case
  proof (cases "fst p = k")
    case True
    with Cons.prems show ?thesis by (auto simp: dict_values_def)
  next
    case False
    have "f (snd p) \<notin> f ` snd ` set (dict_set k v ps)"
    proof
      assume "f (snd p) \<in> f ` snd ` set (dict_set k v ps)"
      then obtain q where q: "q \<in> set (dict_set k v ps)" "f (snd q) = f (snd p)" by auto
      from q(1) set_dict_set[of k v ps] have "q = (k, v) \<or> q \<in> set ps" by auto
      then show False
      proof
        assume "q = (k, v)"
        with q(2) Cons.prems(2) show False by (auto simp: dict_values_def)
      next
        assume qs: "q \<in> set ps"
        from Cons.prems(1) have "f (snd p) \<notin> set (map f (map snd ps))"
          by (simp add: dict_values_def)
        moreover from qs have "f (snd q) \<in> set (map f (map snd ps))" by simp
        ultimately show False using q(2) by simp
      qed
    qed
    moreover have "distinct (map f (dict_values (dict_set k v ps)))"
      using Cons by (auto simp: dict_values_def)
    ultimately show ?thesis using False by (simp add: dict_values_def image_image)
  qed
qed

lemma map_vals_dict_set_same:
  "dict_get k d = Some c \<Longrightarrow> f v = f c \<Longrightarrow>
     map f (dict_values (dict_set k v d)) = map f (dict_values d)"
  by (induction d) (auto simp: dict_get_def dict_values_def split: if_splits)

lemma distinct_map_dict_delete:
  "distinct (map g d) \<Longrightarrow> distinct (map g (dict_delete k d))"
proof (induction d)
  case Nil
  then show ?case by simp
next
  case (Cons p ps)
  then show ?case using set_dict_delete[of k ps] by auto
qed

lemma addresses_unique_fresh:
  assumes "addresses_unique cs"
    and "address4 v \<notin> address4 ` set (dict_values cs)"
    and "address6 v \<notin> address6 ` set (dict_values cs)"
  shows "addresses_unique (dict_set k v cs)"
  using assms
  by (simp add: addresses_unique_def distinct_keys_dict_set distinct_vals_dict_set_fresh)

lemma addresses_unique_same:
  assumes "addresses_unique cs" and "dict_get k cs = Some c"
    and "address4 v = address4 c" and "address6 v = address6 c"
  shows "addresses_unique (dict_set k v cs)"
  using assms
  by (simp add: addresses_unique_def distinct_keys_dict_set map_vals_dict_set_same)

lemma addresses_unique_delete:
  "addresses_unique cs \<Longrightarrow> addresses_unique (dict_delete k cs)"
  using distinct_map_dict_delete[of fst cs k]
    distinct_map_dict_delete[of "\<lambda>p. address4 (snd p)" cs k]
    distinct_map_dict_delete[of "\<lambda>p. address6 (snd p)" cs k]
  by (simp add: addresses_unique_def dict_values_def comp_def)

lemma held_by_other_iff:
  "held_by_other cs i a = (\<exists>p \<in> set cs. fst p \<noteq> i \<and> address4 (snd p) = a)"
  unfolding held_by_other_def find_None_iff by blast

lemma distinct_address4_update:
  "distinct (map fst cs) \<Longrightarrow> distinct (map address4 (dict_values cs)) \<Longrightarrow>
     \<not> held_by_other cs i a \<Longrightarrow>
     distinct (map address4 (dict_values (dict_set i (c\<lparr>address4 := a\<rparr>) cs)))"
proof (induction cs)
  case Nil
  then show ?case by (simp add: dict_values_def)
next
  case (Cons p ps)
  have nh: "\<not> held_by_other ps i a"
    using Cons.prems(3) by (auto simp: held_by_other_iff)
  show ?case
  proof (cases "fst p = i")
    case True
    have "a \<notin> address4 ` snd ` set ps"
    proof
      assume "a \<in> address4 ` snd ` set ps"
      then obtain q where q: "q \<in> set ps" "address4 (snd q) = a" by auto
      from Cons.prems(1) have "fst p \<notin> set (map fst ps)" by simp
      moreover from q(1) have "fst q \<in> set (map fst ps)" by simp
      ultimately have "fst q \<noteq> fst p" by metis
      with True have "fst q \<noteq> i" by simp
      with q Cons.prems(3) show False by (auto simp: held_by_other_iff)
    qed
    with True Cons.prems(2) show ?thesis by (auto simp: dict_values_def)
  next
    case False
    have "address4 (snd p) \<notin> address4 ` snd ` set (dict_set i (c\<lparr>address4 := a\<rparr>) ps)"
    proof
      assume "address4 (snd p) \<in> address4 ` snd ` set (dict_set i (c\<lparr>address4 := a\<rparr>) ps)"
      then obtain q where q: "q \<in> set (dict_set i (c\<lparr>address4 := a\<rparr>) ps)"
        "address4 (snd q) = address4 (snd p)" by auto
      from q(1) set_dict_set[of i "c\<lparr>address4 := a\<rparr>" ps]
      have "q = (i, c\<lparr>address4 := a\<rparr>) \<or> q \<in> set ps" by auto
      then show False
      proof
        assume "q = (i, c\<lparr>address4 := a\<rparr>)"
        with q(2) have "address4 (snd p) = a" by simp
        with False Cons.prems(3) show False by (auto simp: held_by_other_iff)
      next
        assume qs: "q \<in> set ps"
        from Cons.prems(2) have "address4 (snd p) \<notin> set (map address4 (map snd ps))"
          by (simp add: dict_values_def)
        moreover from qs have "address4 (snd q) \<in> set (map address4 (map snd ps))" by simp
        ultimately show False using q(2) by simp
      qed
    qed
    moreover have "distinct (map address4 (dict_values (dict_set i (c\<lparr>address4 := a\<rparr>) ps)))"
      using Cons.IH Cons.prems(1,2) nh by (simp add: dict_values_def)
    ultimately show ?thesis using False by (simp add: dict_values_def image_image)
  qed
qed

lemma addresses_unique_address4:
  assumes "addresses_unique cs" and "dict_get i cs = Some c" and "\<not> held_by_other cs i a"
  shows "addresses_unique (dict_set i (c\<lparr>address4 := a\<rparr>) cs)"
proof -
  have "map address6 (dict_values (dict_set i (c\<lparr>address4 := a\<rparr>) cs))
          = map address6 (dict_values cs)"
    by (rule map_vals_dict_set_same[OF assms(2)]) simp
  with assms show ?thesis
    by (simp add: addresses_unique_def distinct_keys_dict_set distinct_address4_update)
qed

text \<open>The registry after each call of the repository.\<close>

lemma registry_Database_deleteClient:
  "registry (Database_deleteClient i w) = dict_delete i (registry w)"
  by (simp add: registry_def Database_deleteClient_def LowDBClient_delete_def low_update_def
      low_write_def)

lemma registry_Database_toggleClient:
  "registry (Database_toggleClient i e w)
     = (case dict_get i (registry w) of None \<Rightarrow> registry w
        | Some c \<Rightarrow> dict_set i (c\<lparr>enabled := e\<rparr>) (registry w))"
  by (simp add: registry_def Database_toggleClient_def LowDBClient_toggle_def low_update_def
      low_write_def split: option.splits)

lemma registry_Database_updateClientName:
  "registry (Database_updateClientName i n w)
     = (case dict_get i (registry w) of None \<Rightarrow> registry w
        | Some c \<Rightarrow> dict_set i (c\<lparr>client_name := n\<rparr>) (registry w))"
  by (simp add: registry_def Database_updateClientName_def LowDBClient_updateName_def
      low_update_def low_write_def split: option.splits)

lemma registry_Database_updateClientAddress4:
  "registry (Database_updateClientAddress4 i a w)
     = (case dict_get i (registry w) of None \<Rightarrow> registry w
        | Some c \<Rightarrow> dict_set i (c\<lparr>address4 := a\<rparr>) (registry w))"
  by (simp add: registry_def Database_updateClientAddress4_def LowDBClient_updateAddress4_def
      low_update_def low_write_def split: option.splits)

lemma registry_Database_updateClientExpirationDate:
  "registry (Database_updateClientExpirationDate i x w)
     = (case dict_get i (registry w) of None \<Rightarrow> registry w
        | Some c \<Rightarrow> dict_set i (c\<lparr>expiresAt := x\<rparr>) (registry w))"
  by (simp add: registry_def Database_updateClientExpirationDate_def
      LowDBClient_updateExpirationDate_def low_update_def low_write_def split: option.splits)

lemma registry_Database_createOneTimeLink:
  "registry (Database_createOneTimeLink i l w)
     = (case dict_get i (registry w) of None \<Rightarrow> registry w
        | Some c \<Rightarrow> dict_set i (c\<lparr>oneTimeLink := Some l\<rparr>) (registry w))"
  by (simp add: registry_def Database_createOneTimeLink_def LowDBClient_createOneTimeLink_def
      low_update_def low_write_def split: option.splits)

lemma registry_Database_deleteOneTimeLink:
  "registry (Database_deleteOneTimeLink now i w)
     = (case dict_get i (registry w) of None \<Rightarrow> registry w
        | Some c \<Rightarrow>
            (case oneTimeLink c of None \<Rightarrow> registry w
             | Some l \<Rightarrow>
                 dict_set i (c\<lparr>oneTimeLink := Some (l\<lparr>link_expiresAt := now + 10 * 1000\<rparr>)\<rparr>)
                   (registry w)))"
  by (simp add: registry_def Database_deleteOneTimeLink_def LowDBClient_deleteOneTimeLink_def
      low_update_def low_write_def split: option.splits)

lemma unique_toggleClient:
  "addresses_unique (registry w) \<Longrightarrow> addresses_unique (registry (Database_toggleClient i e w))"
  by (auto simp: registry_Database_toggleClient split: option.splits
      intro!: addresses_unique_same)

lemma unique_deleteOneTimeLink:
  "addresses_unique (registry w) \<Longrightarrow>
     addresses_unique (registry (Database_deleteOneTimeLink now i w))"
  by (auto simp: registry_Database_deleteOneTimeLink split: option.splits
      intro!: addresses_unique_same)

lemma unique_expire_clients:
  "addresses_unique (registry w) \<Longrightarrow> addresses_unique (registry (expire_clients now cs w))"
  by (induction cs arbitrary: w) (auto simp: unique_toggleClient)

lemma unique_expire_links:
  "addresses_unique (registry w) \<Longrightarrow> addresses_unique (registry (expire_links now cs w))"
  by (induction cs arbitrary: w) (auto simp: unique_deleteOneTimeLink)

lemma unique_cronJob:
  "addresses_unique (registry w) \<Longrightarrow> addresses_unique (registry (snd (cronJob now w)))"
  by (auto simp: cronJob_def Let_def unique_expire_clients unique_expire_links split: sum.splits)

lemma unique_createClient:
  assumes "addresses_unique (registry w)"
  shows "addresses_unique (registry (snd (createClient deps g name expireDate w)))"
proof (cases "Database_getSystem w")
  case (Inl e)
  then show ?thesis using assms by (simp add: createClient_def)
next
  case (Inr sys)
  from createClient_registry[OF Inr, of deps g name expireDate]
  show ?thesis
  proof
    assume "registry (snd (createClient deps g name expireDate w)) = registry w"
    with assms show ?thesis by simp
  next
    assume "\<exists>c a4 a6. nextAddress4 deps sys (registry w) = Some a4
            \<and> nextAddress6 deps sys (registry w) = Some a6
            \<and> address4 c = a4 \<and> address6 c = a6 \<and> client_id c = gen_uuid g
            \<and> registry (snd (createClient deps g name expireDate w))
                = dict_set (gen_uuid g) (NewClient.extend c (Client.fields (gen_now g) (gen_now g)))
                    (registry w)"
    then obtain c where c: "nextAddress4 deps sys (registry w) = Some (address4 c)"
      "nextAddress6 deps sys (registry w) = Some (address6 c)"
      "registry (snd (createClient deps g name expireDate w))
                = dict_set (gen_uuid g) (NewClient.extend c (Client.fields (gen_now g) (gen_now g)))
                    (registry w)" by auto
    have e: "address4 (NewClient.extend c (Client.fields (gen_now g) (gen_now g))) = address4 c"
      "address6 (NewClient.extend c (Client.fields (gen_now g) (gen_now g))) = address6 c"
      by (simp_all add: NewClient.defs Client.defs)
    show ?thesis unfolding c(3)
      by (rule addresses_unique_fresh[OF assms])
         (simp_all add: e nextAddress4_fresh[OF c(1)] nextAddress6_fresh[OF c(2)])
  qed
qed

lemma serve_preserves_unique:
  assumes "addresses_unique (registry w)" and "\<not> unguarded req w"
  shows "addresses_unique (registry (serve deps req w))"
proof (cases req)
  case (CreateClient g name expireDate)
  then show ?thesis using unique_createClient[OF assms(1)] by simp
next
  case (DeleteClient i)
  then show ?thesis using assms(1)
    by (simp add: deleteClient_def registry_Database_deleteClient addresses_unique_delete)
next
  case (EnableClient i)
  then show ?thesis using assms(1) by (simp add: enableClient_def unique_toggleClient)
next
  case (DisableClient i)
  then show ?thesis using assms(1) by (simp add: disableClient_def unique_toggleClient)
next
  case (GenerateOneTimeLink rnd now i)
  then show ?thesis using assms(1)
    by (auto simp: generateOneTimeLink_def Let_def registry_Database_createOneTimeLink
        split: option.splits intro!: addresses_unique_same)
next
  case (EraseOneTimeLink now i)
  then show ?thesis using assms(1) by (simp add: eraseOneTimeLink_def unique_deleteOneTimeLink)
next
  case (UpdateClientName i n)
  then show ?thesis using assms(1)
    by (auto simp: updateClientName_def registry_Database_updateClientName
        split: option.splits intro!: addresses_unique_same)
next
  case (UpdateClientAddress i a)
  then show ?thesis using assms
    by (auto simp: updateClientAddress_def registry_Database_updateClientAddress4
        split: option.splits intro!: addresses_unique_address4)
next
  case (UpdateClientExpireDate i x)
  then show ?thesis using assms(1)
    by (auto simp: updateClientExpireDate_def registry_Database_updateClientExpirationDate
        split: option.splits sum.splits if_splits intro!: addresses_unique_same)
next
  case (CronJob now)
  then show ?thesis using assms(1) by (simp add: unique_cronJob)
qed

text \<open>
  C1 (as amended). In every world reached from an empty registry by operations of the
  service, none of them an \<^verbatim>\<open>updateClientAddress\<close> to an address that another client
  holds, the keys of the registry are distinct, no two clients have the same IPv4
  address and no two have the same IPv6 address. \<^verbatim>\<open>createClient\<close> and every other
  operation preserve this; \<^verbatim>\<open>updateClientAddress\<close> preserves it when the new address
  is held by no other client.
\<close>

theorem reachable_addresses_unique:
  assumes "reachable deps w"
  shows "addresses_unique (registry w)"
  using assms
proof (induction rule: reachable.induct)
  case (initial w)
  then show ?case by (simp add: addresses_unique_def dict_values_def)
next
  case (step w req)
  then show ?case by (simp add: serve_preserves_unique)
qed

theorem reachable_addresses_unique_witness:
  "reachable example_deps example_world4
   \<and> addresses_unique (registry example_world4)
   \<and> map address4 (dict_values (registry example_world4)) = [''10.8.0.2'', ''10.8.0.4'']"
proof -
  have e: "registry example_world = []" by code_simp
  have r0: "reachable example_deps example_world" by (rule reachable.initial[OF e])
  have r1: "reachable example_deps example_world1"
    unfolding example_world1_def by (rule reachable.step[OF r0]) simp
  have r2: "reachable example_deps example_world2"
    unfolding example_world2_def by (rule reachable.step[OF r1]) simp
  have g: "\<not> unguarded (UpdateClientAddress ''uuid-b'' ''10.8.0.4'') example_world2"
    by code_simp
  have r4: "reachable example_deps example_world4"
    unfolding example_world4_def by (rule reachable.step[OF r2 g])
  have a: "map address4 (dict_values (registry example_world4)) = [''10.8.0.2'', ''10.8.0.4'']"
    by code_simp
  from reachable_addresses_unique[OF r4] r4 a show ?thesis by simp
qed

text \<open>
  C1 as stated fails: \<^verbatim>\<open>updateClientAddress\<close> checks the syntax of the new address
  only. After alice and bob have been created, moving bob to alice's address resolves
  and leaves two clients with the address 10.8.0.2.
\<close>

theorem updateClientAddress_breaks_uniqueness:
  "addresses_unique (registry example_world2)
   \<and> map address4 (dict_values (registry example_world2)) = [''10.8.0.2'', ''10.8.0.3'']
   \<and> fst (updateClientAddress example_deps ''uuid-b'' ''10.8.0.2'' example_world2) = Inr ()
   \<and> map address4 (dict_values
        (registry (serve example_deps (UpdateClientAddress ''uuid-b'' ''10.8.0.2'') example_world2)))
       = [''10.8.0.2'', ''10.8.0.2'']
   \<and> \<not> addresses_unique
        (registry (serve example_deps (UpdateClientAddress ''uuid-b'' ''10.8.0.2'') example_world2))"
  by code_simp

subsection \<open>Startup\<close>

lemma run_timers_pending:
  "t < 1000 \<Longrightarrow> run_timers connected t \<lparr>timers = [1000], resolved = False\<rparr>
     = \<lparr>timers = [1000], resolved = False\<rparr>"
  by (simp add: run_timers_def)

lemma run_timers_due:
  "1000 \<le> t \<Longrightarrow> run_timers connected t \<lparr>timers = [1000], resolved = False\<rparr>
     = \<lparr>timers = [], resolved = connected t\<rparr>"
  by (simp add: run_timers_def wait_def)

lemma run_timers_idle:
  "run_timers connected t \<lparr>timers = [], resolved = r\<rparr> = \<lparr>timers = [], resolved = r\<rparr>"
  by (simp add: run_timers_def)

lemma event_loop_wait:
  "event_loop connected t \<lparr>timers = [1000], resolved = False\<rparr>
     = (if t < 1000 then \<lparr>timers = [1000], resolved = False\<rparr>
        else \<lparr>timers = [], resolved = connected 1000\<rparr>)"
proof (induction t)
  case 0
  show ?case by (simp add: run_timers_pending)
next
  case (Suc t)
  show ?case
  proof (cases "Suc t < 1000")
    case True
    with Suc show ?thesis by (simp add: run_timers_pending)
  next
    case False
    show ?thesis
    proof (cases "t < 1000")
      case True
      with False have t: "Suc t = 1000" by simp
      have "event_loop connected (Suc t) \<lparr>timers = [1000], resolved = False\<rparr>
          = run_timers connected (Suc t) (event_loop connected t \<lparr>timers = [1000], resolved = False\<rparr>)"
        by (rule event_loop.simps(2))
      also have "\<dots> = run_timers connected (Suc t) \<lparr>timers = [1000], resolved = False\<rparr>"
        using True Suc by simp
      also have "\<dots> = \<lparr>timers = [], resolved = connected (Suc t)\<rparr>"
        by (rule run_timers_due) (simp only: t)
      finally show ?thesis using False by (simp only: t if_False)
    next
      case F: False
      have "event_loop connected (Suc t) \<lparr>timers = [1000], resolved = False\<rparr>
          = run_timers connected (Suc t) (event_loop connected t \<lparr>timers = [1000], resolved = False\<rparr>)"
        by (rule event_loop.simps(2))
      also have "\<dots> = run_timers connected (Suc t) \<lparr>timers = [], resolved = connected 1000\<rparr>"
        using F Suc by simp
      also have "\<dots> = \<lparr>timers = [], resolved = connected 1000\<rparr>"
        by (rule run_timers_idle)
      finally show ?thesis using False by (simp only: if_False)
    qed
  qed
qed

lemma Startup_promise_iff: "Startup_promise connected t = (1000 \<le> t \<and> connected 1000)"
  by (auto simp: Startup_promise_def setTimeout_wait_def event_loop_wait)

lemma Startup_proceeds_if_connected_at_first_check:
  "connected 1000 \<Longrightarrow> 1000 \<le> t \<Longrightarrow>
     Startup deps connected t now w = Some (Startup_continue deps now w)"
  by (simp add: Startup_def Startup_promise_iff)

lemma Startup_blocked_while_not_connected:
  "\<not> connected 1000 \<Longrightarrow> Startup deps connected t now w = None"
  by (simp add: Startup_def Startup_promise_iff)

text \<open>
  C5. \<^verbatim>\<open>Startup\<close> does not go on while the repository is not connected
  (\<open>Startup_blocked_while_not_connected\<close>), and goes on when it is connected at the
  one check, 1000 ms after the call (\<open>Startup_proceeds_if_connected_at_first_check\<close>).
  But the check is not repeated: when the repository connects 2000 ms after the call,
  the promise is never resolved and \<^verbatim>\<open>Startup\<close> never saves, brings the interface up
  or syncs, however long it is observed.
\<close>

theorem Startup_never_resumes_after_late_connect:
  "\<not> Startup_promise (\<lambda>t. 2000 \<le> t) t \<and> Startup deps (\<lambda>t. 2000 \<le> t) t now w = None"
  by (simp add: Startup_def Startup_promise_iff)

subsection \<open>The reconciliation pass\<close>

text \<open>
  C6. A pass with both features enabled over carol, who is enabled, whose expiration
  date has passed and whose one-time link has expired: carol is disabled, and the
  link is not deleted; it is kept with an expiry 10 seconds after the pass, so the
  expired link is valid again.
\<close>

theorem cronJob_keeps_expired_link:
  "feature_enabled (clientExpiration example_system)
   \<and> feature_enabled (oneTimeLinks example_system)
   \<and> map (\<lambda>c. (enabled c, expiresAt c, map_option link_expiresAt (oneTimeLink c)))
         (dict_values (registry example_world_expiring))
       = [(True, Some 1893542399000, Some 302000)]
   \<and> fst (cronJob 1893542400000 example_world_expiring) = Inr ()
   \<and> map (\<lambda>c. (enabled c, expiresAt c, map_option link_expiresAt (oneTimeLink c)))
         (dict_values (registry (snd (cronJob 1893542400000 example_world_expiring))))
       = [(False, Some 1893542399000, Some 1893542410000)]"
  by code_simp

end
